theory Spec2Isabelle
  imports Main "HOL-Library.Product_Lexorder"
begin

section \<open>Data model\<close>

text \<open>
  The program is a data layer (\<open>db-auth.ts\<close>) of parameterised SQL statements over MySQL
  tables, server actions (\<open>actions.ts\<close>) and route handlers on top of it. The tables are
  lists of rows in insertion order, the database is a record of its tables, and every
  function takes the database and returns it, also when it throws: an action that fails
  half way leaves the statements already executed in place.

  A string is a \<open>string\<close>, one element for one UTF-16 code unit of the JavaScript string.
  The columns that hold only bookkeeping timestamps which no modelled statement reads
  (\<open>created_at\<close>, \<open>updated_at\<close>, \<open>last_login\<close>, \<open>start_date\<close>, \<open>end_date\<close>,
  \<open>last_activity\<close>) are left out of the rows.
\<close>

datatype role = RUser | RAdmin | RSuperadmin

datatype plan = Starter | Pro | Expert

datatype status = Active | Cancelled | Inactive | Suspended

datatype 'n json =
    JNull
  | JBool bool
  | JNum 'n
  | JStr string
  | JArr "'n json list"
  | JObj "(string \<times> 'n json) list"

text \<open>The error codes of the MySQL driver that the modelled statements can meet.\<close>

datatype db_code =
  ER_DUP_ENTRY | ER_NO_REFERENCED_ROW_2 | ER_BAD_NULL_ERROR | ER_DATA_TOO_LONG

text \<open>
  A thrown value: the driver's error object passed on unchanged (\<open>DbError\<close>), or
  \<open>new Error(message)\<close>.
\<close>

datatype error = DbError db_code | Error string

record user_row =
  u_id :: string
  u_email :: string
  u_password_hash :: string
  u_name :: string
  u_role :: role
  u_plan :: plan
  u_status :: status

record admin_row =
  a_id :: string
  a_email :: string
  a_password_hash :: string
  a_name :: string
  a_role :: role
  a_status :: status

record subscription_row =
  s_id :: string
  s_user_id :: string
  s_plan :: plan
  s_status :: status
  s_renewal_date :: "string option"

text \<open>\<open>expires_at\<close> is \<open>TIMESTAMP NULL\<close>: seconds since the epoch, or NULL.\<close>

record session_row =
  ss_id :: string
  ss_user_id :: string
  ss_session_token :: string
  ss_user_agent :: "string option"
  ss_ip_address :: "string option"
  ss_expires_at :: "int option"

record audit_row =
  al_id :: string
  al_user_id :: "string option"
  al_action :: string
  al_entity_type :: "string option"
  al_entity_id :: "string option"
  al_changes :: "int json option"
  al_ip_address :: "string option"

record package_row =
  pk_id :: string
  pk_name :: string
  pk_description :: "string option"
  pk_price :: int
  pk_currency :: string
  pk_features :: "string option"
  pk_display_order :: int
  pk_created_by :: "string option"
  pk_active :: bool
  pk_created_at :: int

record db =
  users :: "user_row list"
  admins :: "admin_row list"
  subscriptions :: "subscription_row list"
  user_sessions :: "session_row list"
  audit_logs :: "audit_row list"
  packages :: "package_row list"

definition empty_db :: db where
  "empty_db = \<lparr>users = [], admins = [], subscriptions = [], user_sessions = [],
                audit_logs = [], packages = []\<rparr>"

text \<open>What a function leaves behind: the value it returns or throws, and the database.\<close>

type_synonym 'a result = "(error + 'a) \<times> db"

subsection \<open>The collaborators outside the repository\<close>

text \<open>
  The token payload of \<open>createJWT\<close>, and the three things \<open>verifyJWT\<close> can do: throw,
  return a falsy value, return a payload.
\<close>

record payload =
  userId :: string
  pl_email :: string
  pl_role :: role

datatype jwt_outcome = JwtThrows | JwtNone | JwtPayload payload

text \<open>
  The library functions the code calls are parameters of the model:
  \<^item> \<open>coll\<close>: the collation key of \<open>utf8mb4_unicode_ci\<close>, the collation of every table; two
    texts are equal for a \<open>WHERE col = ?\<close> and for a unique index when their keys are equal;
  \<^item> \<open>bcrypt_hash\<close>, \<open>bcrypt_compare\<close>: \<open>hash\<close> and \<open>compare\<close> of bcryptjs;
  \<^item> \<open>verifyJWT\<close>, \<open>createJWT\<close>: the token library of \<open>@/lib/jwt\<close>;
  \<^item> \<open>tza\<close>: the offset in milliseconds of the server's local time from UTC (a zone with a
    fixed offset; a zone with daylight saving has an offset that depends on the instant).
\<close>

record env =
  coll :: "string \<Rightarrow> string"
  bcrypt_hash :: "string \<Rightarrow> string"
  bcrypt_compare :: "string \<Rightarrow> string \<Rightarrow> bool"
  verifyJWT :: "string \<Rightarrow> jwt_outcome"
  createJWT :: "payload \<Rightarrow> string"
  tza :: int

definition hashPassword :: "env \<Rightarrow> string \<Rightarrow> string" where
  "hashPassword env password = bcrypt_hash env password"

definition verifyPassword :: "env \<Rightarrow> string \<Rightarrow> string \<Rightarrow> bool" where
  "verifyPassword env password passwordHash = bcrypt_compare env password passwordHash"

section \<open>User operations\<close>

text \<open>The public profile \<open>User\<close> of \<open>schema.ts\<close>; admins have no plan.\<close>

record User =
  p_id :: string
  p_email :: string
  p_name :: string
  p_role :: role
  p_plan :: "plan option"
  p_status :: status

record createUser_data =
  cu_email :: string
  cu_password :: string
  cu_name :: string
  cu_plan :: "plan option"

text \<open>
  \<open>INSERT INTO users\<close>: \<open>id\<close> is the primary key and \<open>email\<close> is \<open>UNIQUE\<close>; a row whose id
  or email is already there is refused with \<open>ER_DUP_ENTRY\<close>.
\<close>

definition insert_users :: "env \<Rightarrow> user_row \<Rightarrow> db \<Rightarrow> db_code + db" where
  "insert_users env r d =
     (if coll env (u_id r) \<in> set (map (\<lambda>u. coll env (u_id u)) (users d))
         \<or> coll env (u_email r) \<in> set (map (\<lambda>u. coll env (u_email u)) (users d))
      then Inl ER_DUP_ENTRY
      else Inr (d\<lparr>users := users d @ [r]\<rparr>))"

text \<open>\<open>createUser\<close>; \<open>nid\<close> is the identifier \<open>randomUUID()\<close> returns.\<close>

definition createUser :: "env \<Rightarrow> string \<Rightarrow> createUser_data \<Rightarrow> db \<Rightarrow> User result" where
  "createUser env nid data d =
     (let passwordHash = hashPassword env (cu_password data);
          role = RUser;
          plan = (case cu_plan data of None \<Rightarrow> Starter | Some p \<Rightarrow> p)
      in case insert_users env
                \<lparr>u_id = nid, u_email = cu_email data, u_password_hash = passwordHash,
                 u_name = cu_name data, u_role = role, u_plan = plan, u_status = Active\<rparr> d of
           Inr d' \<Rightarrow>
             (Inr \<lparr>p_id = nid, p_email = cu_email data, p_name = cu_name data,
                   p_role = role, p_plan = Some plan, p_status = Active\<rparr>, d')
         | Inl code \<Rightarrow>
             (if code = ER_DUP_ENTRY then (Inl (Error ''Email already exists''), d)
              else (Inl (DbError code), d)))"

definition public_profile :: "user_row \<Rightarrow> User" where
  "public_profile u =
     \<lparr>p_id = u_id u, p_email = u_email u, p_name = u_name u, p_role = u_role u,
      p_plan = Some (u_plan u), p_status = u_status u\<rparr>"

definition getUserByEmail :: "env \<Rightarrow> string \<Rightarrow> db \<Rightarrow> User option" where
  "getUserByEmail env email d =
     (case filter (\<lambda>u. coll env (u_email u) = coll env email) (users d) of
        [] \<Rightarrow> None
      | u # _ \<Rightarrow> Some (public_profile u))"

definition getUserById :: "env \<Rightarrow> string \<Rightarrow> db \<Rightarrow> User option" where
  "getUserById env uid d =
     (case filter (\<lambda>u. coll env (u_id u) = coll env uid) (users d) of
        [] \<Rightarrow> None
      | u # _ \<Rightarrow> Some (public_profile u))"

record updateUser_data =
  uu_name :: "string option"
  uu_email :: "string option"
  uu_plan :: "plan option"
  uu_status :: "status option"

text \<open>
  \<open>UPDATE users SET ... WHERE id = ?\<close>. The statement is refused with \<open>ER_DUP_ENTRY\<close> when it
  changes the email keys and two rows would hold the same one; a refused statement changes
  nothing.
\<close>

definition update_users :: "env \<Rightarrow> string \<Rightarrow> (user_row \<Rightarrow> user_row) \<Rightarrow> db \<Rightarrow> db_code + db" where
  "update_users env uid f d =
     (let new = map (\<lambda>u. if coll env (u_id u) = coll env uid then f u else u) (users d)
      in if map (\<lambda>u. coll env (u_email u)) new = map (\<lambda>u. coll env (u_email u)) (users d)
            \<or> distinct (map (\<lambda>u. coll env (u_email u)) new)
         then Inr (d\<lparr>users := new\<rparr>)
         else Inl ER_DUP_ENTRY)"

definition patch_user :: "updateUser_data \<Rightarrow> user_row \<Rightarrow> user_row" where
  "patch_user data u =
     u\<lparr>u_name := (case uu_name data of None \<Rightarrow> u_name u | Some n \<Rightarrow> n),
       u_email := (case uu_email data of None \<Rightarrow> u_email u | Some e \<Rightarrow> e),
       u_plan := (case uu_plan data of None \<Rightarrow> u_plan u | Some p \<Rightarrow> p),
       u_status := (case uu_status data of None \<Rightarrow> u_status u | Some s \<Rightarrow> s)\<rparr>"

definition updateUser :: "env \<Rightarrow> string \<Rightarrow> updateUser_data \<Rightarrow> db \<Rightarrow> unit result" where
  "updateUser env uid data d =
     (if uu_name data = None \<and> uu_email data = None \<and> uu_plan data = None
         \<and> uu_status data = None
      then (Inr (), d)
      else case update_users env uid (patch_user data) d of
             Inl code \<Rightarrow> (Inl (DbError code), d)
           | Inr d' \<Rightarrow> (Inr (), d'))"

text \<open>
  \<open>updatePassword\<close>: the guard \<open>!newPassword || newPassword.length < 6\<close>, then the hash and
  \<open>UPDATE users SET password_hash = ? ... WHERE id = ?\<close>, which no constraint can refuse.
\<close>

definition updatePassword :: "env \<Rightarrow> string \<Rightarrow> string \<Rightarrow> db \<Rightarrow> unit result" where
  "updatePassword env uid newPassword d =
     (if newPassword = [] \<or> length newPassword < 6
      then (Inl (Error ''Password must be at least 6 characters''), d)
      else let passwordHash = hashPassword env newPassword
           in (Inr (),
               d\<lparr>users := map (\<lambda>u. if coll env (u_id u) = coll env uid
                                     then u\<lparr>u_password_hash := passwordHash\<rparr> else u)
                                (users d)\<rparr>))"

section \<open>Dates\<close>

text \<open>
  A JavaScript \<open>Date\<close> is its time value, the milliseconds since 1970-01-01T00:00:00Z.
  \<open>Day\<close>, \<open>TimeWithinDay\<close>, \<open>MakeDay\<close>, \<open>MakeDate\<close>, \<open>LocalTime\<close> and \<open>UTC\<close> are the abstract
  operations of ECMAScript that \<open>getMonth\<close>, \<open>setMonth\<close> and \<open>toISOString\<close> are defined by;
  the year, month and day of a day number are computed in the proleptic Gregorian
  calendar. \<open>TimeClip\<close> (a time value beyond 8.64e15 is invalid) is left out.
\<close>

definition msPerDay :: int where
  "msPerDay = 86400000"

definition Day :: "int \<Rightarrow> int" where
  "Day t = t div msPerDay"

definition TimeWithinDay :: "int \<Rightarrow> int" where
  "TimeWithinDay t = t mod msPerDay"

text \<open>The day number of the civil date \<open>y\<close>-\<open>m\<close>-\<open>d\<close> (month 1 to 12), day 0 being 1970-01-01.\<close>

definition days_from_civil :: "int \<Rightarrow> int \<Rightarrow> int \<Rightarrow> int" where
  "days_from_civil y m d =
     (let y' = (if m \<le> 2 then y - 1 else y);
          era = y' div 400;
          yoe = y' - era * 400;
          doy = (153 * (if m > 2 then m - 3 else m + 9) + 2) div 5 + d - 1;
          doe = yoe * 365 + yoe div 4 - yoe div 100 + doy
      in era * 146097 + doe - 719468)"

text \<open>The civil date (year, month 1 to 12, day) of a day number.\<close>

definition civil_from_days :: "int \<Rightarrow> int \<times> int \<times> int" where
  "civil_from_days z =
     (let z' = z + 719468;
          era = z' div 146097;
          doe = z' - era * 146097;
          yoe = (doe - doe div 1460 + doe div 36524 - doe div 146096) div 365;
          y = yoe + era * 400;
          doy = doe - (365 * yoe + yoe div 4 - yoe div 100);
          mp = (5 * doy + 2) div 153;
          d = doy - (153 * mp + 2) div 5 + 1;
          m = (if mp < 10 then mp + 3 else mp - 9)
      in (if m \<le> 2 then y + 1 else y, m, d))"

definition YearFromTime :: "int \<Rightarrow> int" where
  "YearFromTime t = fst (civil_from_days (Day t))"

text \<open>\<open>MonthFromTime\<close> counts from 0 (January) to 11.\<close>

definition MonthFromTime :: "int \<Rightarrow> int" where
  "MonthFromTime t = fst (snd (civil_from_days (Day t))) - 1"

definition DateFromTime :: "int \<Rightarrow> int" where
  "DateFromTime t = snd (snd (civil_from_days (Day t)))"

text \<open>
  \<open>MakeDay\<close>: the day number of the first of the month \<open>month\<close> (counted from 0, carried
  into the year) plus \<open>date - 1\<close>, so that a day of month the month does not have runs
  over into the next one.
\<close>

definition MakeDay :: "int \<Rightarrow> int \<Rightarrow> int \<Rightarrow> int" where
  "MakeDay year month date =
     days_from_civil (year + month div 12) (month mod 12 + 1) 1 + date - 1"

definition MakeDate :: "int \<Rightarrow> int \<Rightarrow> int" where
  "MakeDate day time = day * msPerDay + time"

definition LocalTime :: "env \<Rightarrow> int \<Rightarrow> int" where
  "LocalTime env t = t + tza env"

definition UTC :: "env \<Rightarrow> int \<Rightarrow> int" where
  "UTC env t = t - tza env"

definition getMonth :: "env \<Rightarrow> int \<Rightarrow> int" where
  "getMonth env t = MonthFromTime (LocalTime env t)"

definition setMonth :: "env \<Rightarrow> int \<Rightarrow> int \<Rightarrow> int" where
  "setMonth env t month =
     (let lt = LocalTime env t;
          newDate = MakeDate (MakeDay (YearFromTime lt) month (DateFromTime lt))
                             (TimeWithinDay lt)
      in UTC env newDate)"

definition digit_char :: "nat \<Rightarrow> char" where
  "digit_char n = ''0123456789'' ! (n mod 10)"

text \<open>The last \<open>w\<close> decimal digits of \<open>n\<close>, padded with zeros.\<close>

fun digits :: "nat \<Rightarrow> nat \<Rightarrow> string" where
  "digits 0 n = []"
| "digits (Suc w) n = digits w (n div 10) @ [digit_char n]"

text \<open>
  \<open>toISOString\<close>: \<open>YYYY-MM-DDTHH:mm:ss.sssZ\<close> in UTC, the year with a sign and six digits
  when it is not within 0 to 9999.
\<close>

definition toISOString :: "int \<Rightarrow> string" where
  "toISOString t =
     (let y = YearFromTime t;
          tod = TimeWithinDay t
      in (if 0 \<le> y \<and> y \<le> 9999 then digits 4 (nat y)
          else (if y < 0 then ''-'' else ''+'') @ digits 6 (nat \<bar>y\<bar>))
         @ ''-'' @ digits 2 (nat (MonthFromTime t + 1))
         @ ''-'' @ digits 2 (nat (DateFromTime t))
         @ ''T'' @ digits 2 (nat (tod div 3600000))
         @ '':'' @ digits 2 (nat (tod div 60000 mod 60))
         @ '':'' @ digits 2 (nat (tod div 1000 mod 60))
         @ ''.'' @ digits 3 (nat (tod mod 1000))
         @ ''Z'')"

text \<open>\<open>s.replace(a, b)\<close> for one-character strings: the first occurrence only.\<close>

fun replace_first :: "char \<Rightarrow> char \<Rightarrow> string \<Rightarrow> string" where
  "replace_first a b [] = []"
| "replace_first a b (c # cs) = (if c = a then b # cs else c # replace_first a b cs)"

definition toSqlDatetime :: "int \<Rightarrow> string" where
  "toSqlDatetime date = replace_first CHR ''T'' CHR '' '' (take 19 (toISOString date))"

section \<open>Audit log\<close>

record audit_data =
  ad_userId :: "string option"
  ad_action :: string
  ad_entityType :: "string option"
  ad_entityId :: "string option"
  ad_changes :: "int json option"
  ad_ipAddress :: "string option"

text \<open>\<open>x || null\<close> for an optional string: undefined and the empty string give null.\<close>

definition or_null :: "string option \<Rightarrow> string option" where
  "or_null x = (case x of None \<Rightarrow> None | Some s \<Rightarrow> if s = [] then None else Some s)"

text \<open>
  \<open>INSERT INTO audit_logs\<close>: \<open>id\<close> is the primary key, \<open>user_id\<close> is a nullable foreign key
  into \<open>users\<close>, and \<open>ip_address\<close> is \<open>VARCHAR(45)\<close>: MySQL in strict mode, its default,
  refuses a longer value with \<open>ER_DATA_TOO_LONG\<close> before it looks at the keys. The width
  is checked for this column, the one that takes text from a request (the header
  \<open>x-forwarded-for\<close>); the other columns take identifiers drawn by the code, keys of stored
  rows and constant texts, which fit theirs.
\<close>

definition insert_audit_logs :: "env \<Rightarrow> audit_row \<Rightarrow> db \<Rightarrow> db_code + db" where
  "insert_audit_logs env r d =
     (if (case al_ip_address r of None \<Rightarrow> False | Some ip \<Rightarrow> length ip > 45)
      then Inl ER_DATA_TOO_LONG
      else if coll env (al_id r) \<in> set (map (\<lambda>a. coll env (al_id a)) (audit_logs d))
      then Inl ER_DUP_ENTRY
      else if (case al_user_id r of
                 None \<Rightarrow> False
               | Some u \<Rightarrow> coll env u \<notin> set (map (\<lambda>x. coll env (u_id x)) (users d)))
      then Inl ER_NO_REFERENCED_ROW_2
      else Inr (d\<lparr>audit_logs := audit_logs d @ [r]\<rparr>))"

text \<open>
  \<open>logAuditAction\<close>; \<open>nid\<close> is the identifier \<open>randomUUID()\<close> returns. The actor is stored
  only when \<open>SELECT id FROM users WHERE id = ?\<close> finds it.
\<close>

definition logAuditAction :: "env \<Rightarrow> string \<Rightarrow> audit_data \<Rightarrow> db \<Rightarrow> unit result" where
  "logAuditAction env nid data d =
     (let userIdToInsert =
            (case ad_userId data of
               None \<Rightarrow> None
             | Some u \<Rightarrow>
                 if u = [] then None
                 else if filter (\<lambda>x. coll env (u_id x) = coll env u) (users d) \<noteq> []
                      then Some u else None)
      in case insert_audit_logs env
                \<lparr>al_id = nid, al_user_id = userIdToInsert, al_action = ad_action data,
                 al_entity_type = or_null (ad_entityType data),
                 al_entity_id = or_null (ad_entityId data),
                 al_changes = ad_changes data,
                 al_ip_address = or_null (ad_ipAddress data)\<rparr> d of
           Inl code \<Rightarrow> (Inl (DbError code), d)
         | Inr d' \<Rightarrow> (Inr (), d'))"

section \<open>Subscription operations\<close>

record Subscription =
  sub_id :: string
  sub_plan :: plan
  sub_status :: status
  sub_renewal_date :: "string option"

text \<open>\<open>getSubscription\<close>: \<open>WHERE user_id = ? AND status = 'Active' LIMIT 1\<close>.\<close>

definition getSubscription :: "env \<Rightarrow> string \<Rightarrow> db \<Rightarrow> Subscription option" where
  "getSubscription env uid d =
     (case filter (\<lambda>s. coll env (s_user_id s) = coll env uid \<and> s_status s = Active)
                  (subscriptions d) of
        [] \<Rightarrow> None
      | s # _ \<Rightarrow> Some \<lparr>sub_id = s_id s, sub_plan = s_plan s, sub_status = s_status s,
                         sub_renewal_date = s_renewal_date s\<rparr>)"

text \<open>
  The key of \<open>UNIQUE KEY unique_active_subscription (user_id, status)\<close>: it holds for the
  rows of every status, not only for the Active ones.
\<close>

definition sub_key :: "env \<Rightarrow> subscription_row \<Rightarrow> string \<times> status" where
  "sub_key env s = (coll env (s_user_id s), s_status s)"

text \<open>
  \<open>INSERT INTO subscriptions\<close>: primary key \<open>id\<close>, the unique key, and the foreign key
  \<open>user_id\<close> into \<open>users\<close>.
\<close>

definition insert_subscriptions :: "env \<Rightarrow> subscription_row \<Rightarrow> db \<Rightarrow> db_code + db" where
  "insert_subscriptions env r d =
     (if coll env (s_id r) \<in> set (map (\<lambda>s. coll env (s_id s)) (subscriptions d))
         \<or> sub_key env r \<in> set (map (sub_key env) (subscriptions d))
      then Inl ER_DUP_ENTRY
      else if coll env (s_user_id r) \<notin> set (map (\<lambda>u. coll env (u_id u)) (users d))
      then Inl ER_NO_REFERENCED_ROW_2
      else Inr (d\<lparr>subscriptions := subscriptions d @ [r]\<rparr>))"

text \<open>
  \<open>createSubscription\<close>; \<open>nid\<close> is the identifier \<open>randomUUID()\<close> returns and \<open>now\<close> the time
  value of \<open>new Date()\<close>.
\<close>

definition createSubscription ::
  "env \<Rightarrow> string \<Rightarrow> int \<Rightarrow> string \<Rightarrow> plan \<Rightarrow> db \<Rightarrow> Subscription result" where
  "createSubscription env nid now uid plan d =
     (let renewalDate = setMonth env now (getMonth env now + 1)
      in case insert_subscriptions env
                \<lparr>s_id = nid, s_user_id = uid, s_plan = plan, s_status = Active,
                 s_renewal_date = Some (toSqlDatetime renewalDate)\<rparr> d of
           Inl code \<Rightarrow> (Inl (DbError code), d)
         | Inr d' \<Rightarrow>
             (Inr \<lparr>sub_id = nid, sub_plan = plan, sub_status = Active,
                   sub_renewal_date = Some (toISOString renewalDate)\<rparr>, d'))"

text \<open>
  \<open>UPDATE subscriptions SET ... WHERE id = ?\<close>, refused with \<open>ER_DUP_ENTRY\<close> when it changes
  the unique keys and two rows would hold the same one.
\<close>

definition update_subscriptions ::
  "env \<Rightarrow> string \<Rightarrow> (subscription_row \<Rightarrow> subscription_row) \<Rightarrow> db \<Rightarrow> db_code + db" where
  "update_subscriptions env sid f d =
     (let new = map (\<lambda>s. if coll env (s_id s) = coll env sid then f s else s) (subscriptions d)
      in if map (sub_key env) new = map (sub_key env) (subscriptions d)
            \<or> distinct (map (sub_key env) new)
         then Inr (d\<lparr>subscriptions := new\<rparr>)
         else Inl ER_DUP_ENTRY)"

text \<open>
  \<open>new Date(data.renewal_date)\<close> is a time value or an invalid date, for which
  \<open>toISOString\<close> throws a \<open>RangeError\<close>.
\<close>

datatype js_date = InvalidDate | TimeValue int

record updateSubscription_data =
  us_plan :: "plan option"
  us_status :: "status option"
  us_renewal_date :: "js_date option"

definition patch_subscription :: "updateSubscription_data \<Rightarrow> subscription_row \<Rightarrow> subscription_row" where
  "patch_subscription data s =
     s\<lparr>s_plan := (case us_plan data of None \<Rightarrow> s_plan s | Some p \<Rightarrow> p),
       s_status := (case us_status data of None \<Rightarrow> s_status s | Some st \<Rightarrow> st),
       s_renewal_date := (case us_renewal_date data of
                            Some (TimeValue t) \<Rightarrow> Some (toSqlDatetime t)
                          | _ \<Rightarrow> s_renewal_date s)\<rparr>"

definition updateSubscription :: "env \<Rightarrow> string \<Rightarrow> updateSubscription_data \<Rightarrow> db \<Rightarrow> unit result" where
  "updateSubscription env sid data d =
     (if us_renewal_date data = Some InvalidDate then (Inl (Error ''Invalid time value''), d)
      else if us_plan data = None \<and> us_status data = None \<and> us_renewal_date data = None
      then (Inr (), d)
      else case update_subscriptions env sid (patch_subscription data) d of
             Inl code \<Rightarrow> (Inl (DbError code), d)
           | Inr d' \<Rightarrow> (Inr (), d'))"

text \<open>\<open>cancelSubscription\<close> of the data layer: \<open>UPDATE subscriptions SET status = 'Cancelled'\<close>.\<close>

definition cancelSubscription_db :: "env \<Rightarrow> string \<Rightarrow> db \<Rightarrow> unit result" where
  "cancelSubscription_db env sid d =
     (case update_subscriptions env sid (\<lambda>s. s\<lparr>s_status := Cancelled\<rparr>) d of
        Inl code \<Rightarrow> (Inl (DbError code), d)
      | Inr d' \<Rightarrow> (Inr (), d'))"

text \<open>
  \<open>deleteUser\<close>: the subscriptions and sessions of the user go with the row
  (\<open>ON DELETE CASCADE\<close>), the audit entries lose their actor (\<open>ON DELETE SET NULL\<close>).
\<close>

definition deleteUser :: "env \<Rightarrow> string \<Rightarrow> db \<Rightarrow> unit result" where
  "deleteUser env uid d =
     (let gone = filter (\<lambda>u. coll env (u_id u) = coll env uid) (users d);
          is_gone = (\<lambda>x. coll env x \<in> set (map (\<lambda>u. coll env (u_id u)) gone))
      in (Inr (),
          d\<lparr>users := filter (\<lambda>u. coll env (u_id u) \<noteq> coll env uid) (users d),
            subscriptions := filter (\<lambda>s. \<not> is_gone (s_user_id s)) (subscriptions d),
            user_sessions := filter (\<lambda>s. \<not> is_gone (ss_user_id s)) (user_sessions d),
            audit_logs := map (\<lambda>a. case al_user_id a of
                                      None \<Rightarrow> a
                                    | Some x \<Rightarrow> if is_gone x then a\<lparr>al_user_id := None\<rparr> else a)
                              (audit_logs d)\<rparr>))"

section \<open>Server actions\<close>

text \<open>
  \<open>getCurrentUserId\<close>: throws on an empty token and when \<open>verifyJWT\<close> throws, returns the
  payload's \<open>userId\<close>, and returns undefined (\<open>None\<close>) when \<open>verifyJWT\<close> returns no payload.
\<close>

definition getCurrentUserId :: "env \<Rightarrow> string \<Rightarrow> error + string option" where
  "getCurrentUserId env token =
     (if token = [] then Inl (Error ''No token provided'')
      else case verifyJWT env token of
             JwtThrows \<Rightarrow> Inl (Error ''Invalid token'')
           | JwtPayload p \<Rightarrow> Inr (Some (userId p))
           | JwtNone \<Rightarrow> Inr None)"

definition verifyAdminRole :: "env \<Rightarrow> string \<Rightarrow> error + string" where
  "verifyAdminRole env token =
     (if token = [] then Inl (Error ''No token provided'')
      else case verifyJWT env token of
             JwtThrows \<Rightarrow> Inl (Error ''Invalid token'')
           | JwtPayload p \<Rightarrow>
               if pl_role p = RAdmin \<or> pl_role p = RSuperadmin then Inr (userId p)
               else Inl (Error ''Unauthorized or insufficient permissions'')
           | JwtNone \<Rightarrow> Inl (Error ''Unauthorized or insufficient permissions''))"

definition plan_name :: "plan \<Rightarrow> string" where
  "plan_name p = (case p of Starter \<Rightarrow> ''Starter'' | Pro \<Rightarrow> ''Pro'' | Expert \<Rightarrow> ''Expert'')"

text \<open>
  \<open>activateSubscription\<close>; \<open>sid\<close> and \<open>aid\<close> are the identifiers drawn for the subscription
  and for the audit entry. When \<open>getCurrentUserId\<close> returns undefined the parameter binds
  as NULL: the insert is refused, \<open>user_id\<close> being \<open>NOT NULL\<close>. \<open>revalidatePath\<close> touches the
  page cache only and is left out.
\<close>

definition activateSubscription ::
  "env \<Rightarrow> string \<Rightarrow> string \<Rightarrow> int \<Rightarrow> string \<Rightarrow> plan \<Rightarrow> db \<Rightarrow> Subscription result" where
  "activateSubscription env sid aid now token planName d =
     (case getCurrentUserId env token of
        Inl e \<Rightarrow> (Inl e, d)
      | Inr None \<Rightarrow> (Inl (DbError ER_BAD_NULL_ERROR), d)
      | Inr (Some uid) \<Rightarrow>
          (case createSubscription env sid now uid planName d of
             (Inl e, d1) \<Rightarrow> (Inl e, d1)
           | (Inr subscription, d1) \<Rightarrow>
               (case updateUser env uid
                       \<lparr>uu_name = None, uu_email = None, uu_plan = Some planName,
                        uu_status = None\<rparr> d1 of
                  (Inl e, d2) \<Rightarrow> (Inl e, d2)
                | (Inr _, d2) \<Rightarrow>
                    (case logAuditAction env aid
                            \<lparr>ad_userId = Some uid, ad_action = ''subscription_activated'',
                             ad_entityType = Some ''subscription'',
                             ad_entityId = Some (sub_id subscription),
                             ad_changes = Some (JObj [(''plan'', JStr (plan_name planName))]),
                             ad_ipAddress = None\<rparr> d2 of
                       (Inl e, d3) \<Rightarrow> (Inl e, d3)
                     | (Inr _, d3) \<Rightarrow> (Inr subscription, d3)))))"

text \<open>
  \<open>cancelSubscription\<close> of the server actions. With an undefined user id the lookup
  compares \<open>user_id\<close> with NULL and finds no row.
\<close>

definition cancelSubscription :: "env \<Rightarrow> string \<Rightarrow> string \<Rightarrow> string \<Rightarrow> db \<Rightarrow> unit result" where
  "cancelSubscription env aid token subscriptionId d =
     (case getCurrentUserId env token of
        Inl e \<Rightarrow> (Inl e, d)
      | Inr None \<Rightarrow> (Inl (Error ''Subscription not found or access denied''), d)
      | Inr (Some uid) \<Rightarrow>
          (case getSubscription env uid d of
             None \<Rightarrow> (Inl (Error ''Subscription not found or access denied''), d)
           | Some subscription \<Rightarrow>
               if sub_id subscription \<noteq> subscriptionId
               then (Inl (Error ''Subscription not found or access denied''), d)
               else
                 (case updateSubscription env subscriptionId
                         \<lparr>us_plan = None, us_status = Some Cancelled,
                          us_renewal_date = None\<rparr> d of
                    (Inl e, d1) \<Rightarrow> (Inl e, d1)
                  | (Inr _, d1) \<Rightarrow>
                      (case updateUser env uid
                              \<lparr>uu_name = None, uu_email = None, uu_plan = Some Starter,
                               uu_status = None\<rparr> d1 of
                         (Inl e, d2) \<Rightarrow> (Inl e, d2)
                       | (Inr _, d2) \<Rightarrow>
                           logAuditAction env aid
                             \<lparr>ad_userId = Some uid, ad_action = ''subscription_cancelled'',
                              ad_entityType = Some ''subscription'',
                              ad_entityId = Some subscriptionId,
                              ad_changes = Some (JObj [(''status'', JStr ''Cancelled'')]),
                              ad_ipAddress = None\<rparr> d2))))"

text \<open>\<open>changeAdminPassword\<close>; the value returned on success is a constant message.\<close>

definition changeAdminPassword :: "env \<Rightarrow> string \<Rightarrow> string \<Rightarrow> string \<Rightarrow> db \<Rightarrow> string result" where
  "changeAdminPassword env aid token newPassword d =
     (case verifyAdminRole env token of
        Inl e \<Rightarrow> (Inl e, d)
      | Inr uid \<Rightarrow>
          (case updatePassword env uid newPassword d of
             (Inl e, d1) \<Rightarrow> (Inl e, d1)
           | (Inr _, d1) \<Rightarrow>
               (case logAuditAction env aid
                       \<lparr>ad_userId = Some uid, ad_action = ''admin_password_changed'',
                        ad_entityType = Some ''user'', ad_entityId = Some uid,
                        ad_changes = Some (JObj [(''password_updated'', JBool True)]),
                        ad_ipAddress = None\<rparr> d1 of
                  (Inl e, d2) \<Rightarrow> (Inl e, d2)
                | (Inr _, d2) \<Rightarrow> (Inr ''Password changed successfully'', d2))))"

section \<open>The database over time\<close>

text \<open>The database the schema script leaves: the pre-installed admin account.\<close>

definition initial_db :: db where
  "initial_db =
     empty_db\<lparr>users :=
       [\<lparr>u_id = ''00000000-0000-0000-0000-000000000001'',
         u_email = ''admin@quantumalphaindia.com'',
         u_password_hash = ''$2a$10$GI8LTh9dR/ANfcThNM5EWOg70XnQ6hqQHXrpo72lDpY5WOk2Rspw2'',
         u_name = ''Quantum Alpha Admin'', u_role = RAdmin, u_plan = Starter,
         u_status = Active\<rparr>]\<rparr>"

text \<open>
  The calls that write to \<open>users\<close> or \<open>subscriptions\<close>, with their arguments and the
  identifiers and clock values drawn during the call.
\<close>

datatype op =
    CreateUser string createUser_data
  | UpdateUser string updateUser_data
  | DeleteUser string
  | UpdatePassword string string
  | ChangeAdminPassword string string string
  | CreateSubscription string int string plan
  | UpdateSubscription string updateSubscription_data
  | CancelSubscription_db string
  | ActivateSubscription string string int string plan
  | CancelSubscription string string string

fun run :: "env \<Rightarrow> op \<Rightarrow> db \<Rightarrow> db" where
  "run env (CreateUser nid data) d = snd (createUser env nid data d)"
| "run env (UpdateUser uid data) d = snd (updateUser env uid data d)"
| "run env (DeleteUser uid) d = snd (deleteUser env uid d)"
| "run env (UpdatePassword uid pw) d = snd (updatePassword env uid pw d)"
| "run env (ChangeAdminPassword aid token pw) d = snd (changeAdminPassword env aid token pw d)"
| "run env (CreateSubscription nid now uid p) d = snd (createSubscription env nid now uid p d)"
| "run env (UpdateSubscription sid data) d = snd (updateSubscription env sid data d)"
| "run env (CancelSubscription_db sid) d = snd (cancelSubscription_db env sid d)"
| "run env (ActivateSubscription sid aid now token p) d
     = snd (activateSubscription env sid aid now token p d)"
| "run env (CancelSubscription aid token sid) d = snd (cancelSubscription env aid token sid d)"

text \<open>The states of the database: the initial one, and what any call leaves.\<close>

inductive reachable :: "env \<Rightarrow> db \<Rightarrow> bool" for env :: env where
  initial: "reachable env initial_db"
| step: "reachable env d \<Longrightarrow> reachable env (run env c d)"

text \<open>The unique key of the \<open>subscriptions\<close> table as a property of a database.\<close>

definition unique_active_subscription :: "env \<Rightarrow> db \<Rightarrow> bool" where
  "unique_active_subscription env d = distinct (map (sub_key env) (subscriptions d))"

definition bob :: user_row where
  "bob = \<lparr>u_id = ''u2'', u_email = ''bob@x.com'', u_password_hash = ''$2a$10$hunter22'',
          u_name = ''Bob'', u_role = RUser, u_plan = Pro, u_status = Active\<rparr>"

definition sub_alice :: subscription_row where
  "sub_alice = \<lparr>s_id = ''s1'', s_user_id = ''u1'', s_plan = Pro, s_status = Active,
                s_renewal_date = Some ''2025-02-15 12:00:00''\<rparr>"

section \<open>Admin login route\<close>

text \<open>
  The JSON body of the request with its two fields, and the \<open>x-forwarded-for\<close> header.
  The password is absent or any JSON value, a number being of a type with a zero. The
  email is absent or a string: how the driver binds a value of another type to
  \<open>WHERE email = ?\<close> is not in the sources.
\<close>

record 'n login_request =
  rq_email :: "string option"
  rq_password :: "'n json option"
  rq_forwarded_for :: "string option"

text \<open>\<open>!v\<close> is false for these values of the body.\<close>

fun truthy :: "('n::zero) json \<Rightarrow> bool" where
  "truthy JNull = False"
| "truthy (JBool b) = b"
| "truthy (JNum n) = (n \<noteq> 0)"
| "truthy (JStr s) = (s \<noteq> [])"
| "truthy (JArr xs) = True"
| "truthy (JObj kvs) = True"

text \<open>The row the route works with, from \<open>admins\<close> (which has no plan) or from \<open>users\<close>.\<close>

record login_row =
  lr_id :: string
  lr_email :: string
  lr_password_hash :: string
  lr_name :: string
  lr_role :: role
  lr_plan :: "plan option"
  lr_status :: status
  lr_admin :: bool

datatype response_body = ErrorBody string | LoginBody User string

record response =
  rs_status :: nat
  rs_body :: response_body

text \<open>The two lookups of the route: the \<open>admins\<close> table first, then \<open>users\<close>.\<close>

definition login_lookup :: "env \<Rightarrow> string \<Rightarrow> db \<Rightarrow> login_row option" where
  "login_lookup env email d =
     (case filter (\<lambda>a. coll env (a_email a) = coll env email) (admins d) of
        a # _ \<Rightarrow>
          Some \<lparr>lr_id = a_id a, lr_email = a_email a, lr_password_hash = a_password_hash a,
                lr_name = a_name a, lr_role = a_role a, lr_plan = None,
                lr_status = a_status a, lr_admin = True\<rparr>
      | [] \<Rightarrow>
          (case filter (\<lambda>u. coll env (u_email u) = coll env email) (users d) of
             u # _ \<Rightarrow>
               Some \<lparr>lr_id = u_id u, lr_email = u_email u,
                     lr_password_hash = u_password_hash u, lr_name = u_name u,
                     lr_role = u_role u, lr_plan = Some (u_plan u),
                     lr_status = u_status u, lr_admin = False\<rparr>
           | [] \<Rightarrow> None))"

definition internal_error :: response where
  "internal_error = \<lparr>rs_status = 500, rs_body = ErrorBody ''Internal server error''\<rparr>"

text \<open>
  \<open>POST\<close> of the admin login route; \<open>aid\<close> is the identifier drawn for the audit entry the
  request writes. The body is a JSON object. An error thrown inside the handler is caught
  and answered with 500: a refused insert of the audit entry, and the rejection of
  \<open>compare\<close> of bcryptjs, which takes strings only, for a password that is not one. The
  update of \<open>last_login\<close> changes no modelled column.
\<close>

definition POST :: "env \<Rightarrow> string \<Rightarrow> ('n::zero) login_request \<Rightarrow> db \<Rightarrow> response \<times> db" where
  "POST env aid req d =
     (case or_null (rq_email req) of
        None \<Rightarrow>
          (\<lparr>rs_status = 400, rs_body = ErrorBody ''Email and password are required''\<rparr>, d)
      | Some email \<Rightarrow>
          (case rq_password req of
             None \<Rightarrow>
               (\<lparr>rs_status = 400,
                 rs_body = ErrorBody ''Email and password are required''\<rparr>, d)
           | Some password \<Rightarrow>
               if \<not> truthy password
               then (\<lparr>rs_status = 400,
                      rs_body = ErrorBody ''Email and password are required''\<rparr>, d)
               else
          (let ip = (case or_null (rq_forwarded_for req) of None \<Rightarrow> ''unknown'' | Some v \<Rightarrow> v)
           in case login_lookup env email d of
                None \<Rightarrow>
                  (\<lparr>rs_status = 401, rs_body = ErrorBody ''Invalid email or password''\<rparr>, d)
              | Some user \<Rightarrow>
                  (case (case password of
                           JStr p \<Rightarrow> Inr (verifyPassword env p (lr_password_hash user))
                         | _ \<Rightarrow> Inl (Error ''Illegal arguments'')) of
                     Inl e \<Rightarrow> (internal_error, d)
                   | Inr passwordMatches \<Rightarrow>
                  if \<not> passwordMatches
                  then (case logAuditAction env aid
                               \<lparr>ad_userId = None, ad_action = ''admin_login_failed'',
                                ad_entityType = Some ''user'', ad_entityId = Some (lr_id user),
                                ad_changes = None, ad_ipAddress = Some ip\<rparr> d of
                          (Inl e, d1) \<Rightarrow> (internal_error, d1)
                        | (Inr _, d1) \<Rightarrow>
                            (\<lparr>rs_status = 401,
                              rs_body = ErrorBody ''Invalid email or password''\<rparr>, d1))
                  else if \<not> (lr_role user = RAdmin \<or> lr_role user = RSuperadmin)
                  then (case logAuditAction env aid
                               \<lparr>ad_userId = Some (lr_id user),
                                ad_action = ''admin_login_forbidden'',
                                ad_entityType = Some ''user'', ad_entityId = Some (lr_id user),
                                ad_changes = None, ad_ipAddress = Some ip\<rparr> d of
                          (Inl e, d1) \<Rightarrow> (internal_error, d1)
                        | (Inr _, d1) \<Rightarrow>
                            (\<lparr>rs_status = 403,
                              rs_body = ErrorBody ''Not authorized as admin''\<rparr>, d1))
                  else if lr_status user = Cancelled
                  then (\<lparr>rs_status = 403,
                         rs_body = ErrorBody ''Account has been cancelled''\<rparr>, d)
                  else
                    (let token = createJWT env
                                   \<lparr>userId = lr_id user, pl_email = lr_email user,
                                    pl_role = lr_role user\<rparr>
                     in case logAuditAction env aid
                               \<lparr>ad_userId = Some (lr_id user), ad_action = ''admin_login'',
                                ad_entityType = Some ''user'', ad_entityId = Some (lr_id user),
                                ad_changes = None, ad_ipAddress = Some ip\<rparr> d of
                          (Inl e, d1) \<Rightarrow> (internal_error, d1)
                        | (Inr _, d1) \<Rightarrow>
                            (\<lparr>rs_status = 200,
                              rs_body = LoginBody
                                \<lparr>p_id = lr_id user, p_email = lr_email user,
                                 p_name = lr_name user, p_role = lr_role user,
                                 p_plan = lr_plan user, p_status = lr_status user\<rparr>
                                token\<rparr>, d1))))))"

text \<open>A chain of two proxies in \<open>x-forwarded-for\<close>: 51 characters.\<close>

definition forwarded_chain :: string where
  "forwarded_chain = ''203.0.113.195, 2001:db8:85a3:8d3:1319:8a2e:370:7348''"

section \<open>Package operations\<close>

text \<open>
  \<open>JSON.parse\<close> and \<open>JSON.stringify\<close> are parameters: \<open>JSON_parse\<close> returns the value of a
  text or the \<open>SyntaxError\<close> it throws (\<open>Inl\<close>), \<open>JSON_stringify\<close> writes a list of strings.
\<close>

record 'n json_lib =
  JSON_parse :: "string \<Rightarrow> error + 'n json"
  JSON_stringify :: "string list \<Rightarrow> string"

text \<open>The \<open>Package\<close> of \<open>schema.ts\<close>, without its two timestamps.\<close>

record 'n Package =
  pkg_id :: string
  pkg_name :: string
  pkg_description :: "string option"
  pkg_price :: int
  pkg_currency :: string
  pkg_features :: "'n json option"
  pkg_active :: bool
  pkg_display_order :: int
  pkg_created_by :: "string option"

record createPackage_data =
  cp_name :: string
  cp_description :: "string option"
  cp_price :: int
  cp_currency :: "string option"
  cp_features :: "string list option"
  cp_display_order :: "int option"
  cp_created_by :: "string option"

text \<open>
  Modelled from the spec: the \<open>CREATE TABLE\<close> of \<open>packages\<close> is not among the sources. The
  data model of the specification gives the table an identifier and a unique name, so the
  insert refuses a row whose id or name is already there with \<open>ER_DUP_ENTRY\<close>, the error
  \<open>createPackage\<close> catches.
\<close>

definition insert_packages :: "env \<Rightarrow> package_row \<Rightarrow> db \<Rightarrow> db_code + db" where
  "insert_packages env r d =
     (if coll env (pk_id r) \<in> set (map (\<lambda>x. coll env (pk_id x)) (packages d))
         \<or> coll env (pk_name r) \<in> set (map (\<lambda>x. coll env (pk_name x)) (packages d))
      then Inl ER_DUP_ENTRY
      else Inr (d\<lparr>packages := packages d @ [r]\<rparr>))"

text \<open>
  \<open>createPackage\<close>; \<open>nid\<close> is the identifier \<open>randomUUID()\<close> returns and \<open>now\<close> the
  \<open>CURRENT_TIMESTAMP\<close> the row gets as \<open>created_at\<close>.
\<close>

definition createPackage ::
  "env \<Rightarrow> 'n json_lib \<Rightarrow> string \<Rightarrow> int \<Rightarrow> createPackage_data \<Rightarrow> db \<Rightarrow> 'n Package result" where
  \<open>createPackage env lib nid now data d =
     (let currency = (case or_null (cp_currency data) of None \<Rightarrow> ''USD'' | Some c \<Rightarrow> c);
          displayOrder = (case cp_display_order data of None \<Rightarrow> 0 | Some n \<Rightarrow> n);
          features = (case cp_features data of
                        None \<Rightarrow> None
                      | Some fs \<Rightarrow> Some (JSON_stringify lib fs))
      in case insert_packages env
                \<lparr>pk_id = nid, pk_name = cp_name data,
                 pk_description = or_null (cp_description data), pk_price = cp_price data,
                 pk_currency = currency, pk_features = features,
                 pk_display_order = displayOrder,
                 pk_created_by = or_null (cp_created_by data), pk_active = True,
                 pk_created_at = now\<rparr> d of
           Inr d' \<Rightarrow>
             (Inr \<lparr>pkg_id = nid, pkg_name = cp_name data,
                   pkg_description = cp_description data, pkg_price = cp_price data,
                   pkg_currency = currency,
                   pkg_features = map_option (\<lambda>fs. JArr (map JStr fs)) (cp_features data),
                   pkg_active = True, pkg_display_order = displayOrder,
                   pkg_created_by = cp_created_by data\<rparr>, d')
         | Inl code \<Rightarrow>
             (if code = ER_DUP_ENTRY
              then (Inl (Error (''Package "'' @ cp_name data @ ''" already exists'')), d)
              else (Inl (DbError code), d)))\<close>

text \<open>
  The block that reads the stored features in \<open>getAllPackages\<close>, \<open>getPackageById\<close> and
  \<open>getPackageByName\<close>: nothing for a NULL or empty column, else \<open>JSON.parse\<close>, and the raw
  text as the only feature when that throws.
\<close>

definition parse_features :: "'n json_lib \<Rightarrow> string option \<Rightarrow> error + 'n json" where
  "parse_features lib raw =
     (case raw of
        None \<Rightarrow> Inr (JArr [])
      | Some s \<Rightarrow>
          if s = [] then Inr (JArr [])
          else (case JSON_parse lib s of
                  Inr v \<Rightarrow> Inr v
                | Inl e \<Rightarrow> Inr (JArr [JStr s])))"

definition row_package :: "'n json_lib \<Rightarrow> package_row \<Rightarrow> error + 'n Package" where
  "row_package lib r =
     (case parse_features lib (pk_features r) of
        Inl e \<Rightarrow> Inl e
      | Inr features \<Rightarrow>
          Inr \<lparr>pkg_id = pk_id r, pkg_name = pk_name r, pkg_description = pk_description r,
               pkg_price = pk_price r, pkg_currency = pk_currency r,
               pkg_features = Some features, pkg_active = pk_active r,
               pkg_display_order = pk_display_order r, pkg_created_by = pk_created_by r\<rparr>)"

text \<open>\<open>results.map(f)\<close> for an \<open>f\<close> that may throw: the first throw ends the map.\<close>

fun map_result :: "('a \<Rightarrow> error + 'b) \<Rightarrow> 'a list \<Rightarrow> error + 'b list" where
  "map_result f [] = Inr []"
| "map_result f (x # xs) =
     (case f x of
        Inl e \<Rightarrow> Inl e
      | Inr y \<Rightarrow> (case map_result f xs of Inl e \<Rightarrow> Inl e | Inr ys \<Rightarrow> Inr (y # ys)))"

text \<open>
  The rows \<open>getAllPackages\<close> selects: \<open>ORDER BY display_order ASC, created_at DESC\<close>, rows
  that tie staying in table order.
\<close>

definition package_rows :: "bool \<Rightarrow> db \<Rightarrow> package_row list" where
  "package_rows activeOnly d =
     sort_key (\<lambda>r. (pk_display_order r, - pk_created_at r))
       (if activeOnly then filter pk_active (packages d) else packages d)"

definition getAllPackages :: "'n json_lib \<Rightarrow> bool \<Rightarrow> db \<Rightarrow> error + 'n Package list" where
  "getAllPackages lib activeOnly d = map_result (row_package lib) (package_rows activeOnly d)"

definition getPackageById :: "env \<Rightarrow> 'n json_lib \<Rightarrow> string \<Rightarrow> db \<Rightarrow> error + 'n Package option" where
  "getPackageById env lib pid d =
     (case filter (\<lambda>r. coll env (pk_id r) = coll env pid) (packages d) of
        [] \<Rightarrow> Inr None
      | r # _ \<Rightarrow> (case row_package lib r of Inl e \<Rightarrow> Inl e | Inr p \<Rightarrow> Inr (Some p)))"

subsection \<open>Seeding the default packages\<close>

text \<open>
  The currency of the default packages is the rupee sign U+20B9, a code unit a \<open>char\<close>
  cannot carry; the constant stands for it, written as the three bytes of its UTF-8 form.
\<close>

definition rupee :: string where
  "rupee = [CHR 0xE2, CHR 0x82, CHR 0xB9]"

definition defaultPackages :: "createPackage_data list" where
  "defaultPackages =
     [\<lparr>cp_name = ''Desktop Software'',
       cp_description =
         Some ''Manage Yourself - Desktop Software for DIY traders with Community Access'',
       cp_price = 4999, cp_currency = Some rupee,
       cp_features = Some [''Desktop Software'', ''DIY'', ''Community Access'',
                           ''Manage Yourself'', ''Local Execution''],
       cp_display_order = Some 0, cp_created_by = None\<rparr>,
      \<lparr>cp_name = ''Auto Server'',
       cp_description =
         Some ''Fully Automated Server based execution for hands-free trading'',
       cp_price = 5999, cp_currency = Some rupee,
       cp_features = Some [''Fully Automated'', ''Server based Execution'',
                           ''Priority Support'', ''24/7 Monitoring'',
                           ''Execution Management''],
       cp_display_order = Some 1, cp_created_by = None\<rparr>,
      \<lparr>cp_name = ''Hybrid Plan'',
       cp_description = Some ''Combination of Desktop Software and Server Execution'',
       cp_price = 7999, cp_currency = Some rupee,
       cp_features = Some [''Desktop Software'', ''Server Execution'',
                           ''Advanced Analytics'', ''Priority Support'', ''API Access'',
                           ''Custom Strategies''],
       cp_display_order = Some 2, cp_created_by = None\<rparr>]"

text \<open>A natural number in decimal, as a template literal prints it.\<close>

fun show_nat :: "nat \<Rightarrow> string" where
  "show_nat n =
     (if n < 10 then [digit_char n] else show_nat (n div 10) @ [digit_char n])"

declare show_nat.simps [simp del]

text \<open>
  The loop of \<open>seedDefaultPackagesAction\<close> over the default packages; \<open>draw i\<close> is the
  identifier and the timestamp drawn for the package at position \<open>i\<close>. A throw leaves
  the rows created before it.
\<close>

fun seed_loop ::
  "env \<Rightarrow> 'n json_lib \<Rightarrow> (nat \<Rightarrow> string \<times> int) \<Rightarrow> nat \<Rightarrow> createPackage_data list
     \<Rightarrow> 'n Package list \<Rightarrow> db \<Rightarrow> 'n Package list result" where
  "seed_loop env lib draw i [] created d = (Inr created, d)"
| "seed_loop env lib draw i (pkgData # rest) created d =
     (case createPackage env lib (fst (draw i)) (snd (draw i))
             (pkgData\<lparr>cp_created_by := None\<rparr>) d of
        (Inl e, d1) \<Rightarrow> (Inl e, d1)
      | (Inr pkg, d1) \<Rightarrow> seed_loop env lib draw (Suc i) rest (created @ [pkg]) d1)"

record 'n seed_result =
  sr_success :: bool
  sr_message :: string
  sr_packages :: "'n Package list"

definition seedDefaultPackagesAction ::
  "env \<Rightarrow> 'n json_lib \<Rightarrow> (nat \<Rightarrow> string \<times> int) \<Rightarrow> string \<Rightarrow> string \<Rightarrow> db
     \<Rightarrow> 'n seed_result result" where
  "seedDefaultPackagesAction env lib draw aid token d =
     (case verifyAdminRole env token of
        Inl e \<Rightarrow> (Inl e, d)
      | Inr uid \<Rightarrow>
          (case getAllPackages lib False d of
             Inl e \<Rightarrow> (Inl e, d)
           | Inr existingPackages \<Rightarrow>
               if length existingPackages > 0
               then (Inl (Error (''Database already has '' @ show_nat (length existingPackages)
                          @ '' package(s). Delete existing packages first to re-seed.'')), d)
               else
                 (case seed_loop env lib draw 0 defaultPackages [] d of
                    (Inl e, d1) \<Rightarrow> (Inl e, d1)
                  | (Inr createdPackages, d1) \<Rightarrow>
                      (case logAuditAction env aid
                              \<lparr>ad_userId = Some uid, ad_action = ''packages_seeded'',
                               ad_entityType = Some ''package'', ad_entityId = None,
                               ad_changes = Some (JObj
                                 [(''count'', JNum (int (length createdPackages))),
                                  (''packages'', JArr (map (\<lambda>p. JStr (pkg_name p))
                                                          createdPackages))]),
                               ad_ipAddress = None\<rparr> d1 of
                         (Inl e, d2) \<Rightarrow> (Inl e, d2)
                       | (Inr _, d2) \<Rightarrow>
                           (Inr \<lparr>sr_success = True,
                                 sr_message = ''Successfully created ''
                                   @ show_nat (length createdPackages)
                                   @ '' default packages'',
                                 sr_packages = createdPackages\<rparr>, d2)))))"

text \<open>
  The script \<open>seed-packages.js\<close>: it counts the rows, returns when there are any, and
  else inserts the default packages with identifiers the database draws (\<open>UUID()\<close>); an
  error ends the process with exit code 1.
\<close>

datatype script_end = Returned | Exit nat

fun script_loop ::
  "env \<Rightarrow> 'n json_lib \<Rightarrow> (nat \<Rightarrow> string \<times> int) \<Rightarrow> nat \<Rightarrow> createPackage_data list \<Rightarrow> db
     \<Rightarrow> script_end \<times> db" where
  "script_loop env lib draw i [] d = (Returned, d)"
| "script_loop env lib draw i (pkg # rest) d =
     (case insert_packages env
             \<lparr>pk_id = fst (draw i), pk_name = cp_name pkg,
              pk_description = cp_description pkg, pk_price = cp_price pkg,
              pk_currency = (case cp_currency pkg of None \<Rightarrow> [] | Some c \<Rightarrow> c),
              pk_features = Some (JSON_stringify lib
                                    (case cp_features pkg of None \<Rightarrow> [] | Some fs \<Rightarrow> fs)),
              pk_display_order = (case cp_display_order pkg of None \<Rightarrow> 0 | Some n \<Rightarrow> n),
              pk_created_by = None, pk_active = True, pk_created_at = snd (draw i)\<rparr> d of
        Inl code \<Rightarrow> (Exit 1, d)
      | Inr d1 \<Rightarrow> script_loop env lib draw (Suc i) rest d1)"

definition seedPackages ::
  "env \<Rightarrow> 'n json_lib \<Rightarrow> (nat \<Rightarrow> string \<times> int) \<Rightarrow> db \<Rightarrow> script_end \<times> db" where
  "seedPackages env lib draw d =
     (if length (packages d) > 0 then (Returned, d)
      else script_loop env lib draw 0 defaultPackages d)"

section \<open>Session operations\<close>

record session_view =
  sv_id :: string
  sv_user_id :: string
  sv_expires_at :: "int option"

text \<open>
  \<open>getSessionByToken\<close>: \<open>WHERE session_token = ? AND expires_at > NOW()\<close>, first row or
  null. \<open>now\<close> is the value of \<open>NOW()\<close>; a NULL \<open>expires_at\<close> compares as NULL and the row
  is not selected.
\<close>

definition getSessionByToken :: "env \<Rightarrow> string \<Rightarrow> int \<Rightarrow> db \<Rightarrow> session_view option" where
  "getSessionByToken env sessionToken now d =
     (case filter (\<lambda>s. coll env (ss_session_token s) = coll env sessionToken
                        \<and> (case ss_expires_at s of None \<Rightarrow> False | Some e \<Rightarrow> e > now))
                  (user_sessions d) of
        [] \<Rightarrow> None
      | s # _ \<Rightarrow> Some \<lparr>sv_id = ss_id s, sv_user_id = ss_user_id s,
                         sv_expires_at = ss_expires_at s\<rparr>)"

definition deleteExpiredSessions :: "int \<Rightarrow> db \<Rightarrow> db" where
  "deleteExpiredSessions now d =
     d\<lparr>user_sessions :=
         filter (\<lambda>s. \<not> (case ss_expires_at s of None \<Rightarrow> False | Some e \<Rightarrow> e \<le> now))
                (user_sessions d)\<rparr>"

definition session0 :: session_row where
  "session0 = \<lparr>ss_id = ''s1'', ss_user_id = ''u1'', ss_session_token = ''tok'',
               ss_user_agent = None, ss_ip_address = None, ss_expires_at = Some 1000\<rparr>"

text \<open>A concrete environment and database for evaluating the model.\<close>

definition env0 :: env where
  "env0 = \<lparr>coll = (\<lambda>s. s),
           bcrypt_hash = (\<lambda>p. ''$2a$10$'' @ p),
           bcrypt_compare = (\<lambda>p h. h = ''$2a$10$'' @ p),
           verifyJWT = (\<lambda>t. if t = ''tok-alice''
                             then JwtPayload \<lparr>userId = ''u1'', pl_email = ''alice@x.com'', pl_role = RUser\<rparr>
                             else if t = ''tok-admin''
                             then JwtPayload \<lparr>userId = ''a1'', pl_email = ''root@x.com'', pl_role = RSuperadmin\<rparr>
                             else if t = ''tok-bob''
                             then JwtPayload \<lparr>userId = ''u2'', pl_email = ''bob@x.com'', pl_role = RUser\<rparr>
                             else JwtNone),
           createJWT = (\<lambda>p. ''jwt:'' @ userId p),
           tza = 0\<rparr>"

definition alice :: user_row where
  "alice = \<lparr>u_id = ''u1'', u_email = ''alice@x.com'', u_password_hash = ''$2a$10$pw123456'',
            u_name = ''Alice'', u_role = RUser, u_plan = Starter, u_status = Active\<rparr>"

definition alice_data :: createUser_data where
  "alice_data = \<lparr>cu_email = ''alice@x.com'', cu_password = ''pw123456'', cu_name = ''Alice'',
                 cu_plan = None\<rparr>"

subsection \<open>A JSON library for evaluating the model\<close>

text \<open>
  An instance of the two JSON functions for the concrete evaluations: it writes a list of
  strings as a JSON array of string literals, and reads such an array when the literals
  have no escapes and no blanks surround them; every other text is a syntax error. On the
  texts evaluated below it agrees with \<open>JSON.parse\<close>.
\<close>

fun string_literal :: "string \<Rightarrow> (string \<times> string) option" where
  "string_literal [] = None"
| "string_literal (c # cs) =
     (if c = CHR 0x22 then Some ([], cs)
      else if c = CHR 0x5C \<or> (of_char c :: nat) < 32 then None
      else (case string_literal cs of
              None \<Rightarrow> None
            | Some (x, r) \<Rightarrow> Some (c # x, r)))"

fun string_elements :: "nat \<Rightarrow> string \<Rightarrow> string list option" where
  "string_elements 0 s = None"
| "string_elements (Suc n) s =
     (case s of
        [] \<Rightarrow> None
      | c # cs \<Rightarrow>
          if c \<noteq> CHR 0x22 then None
          else (case string_literal cs of
                  None \<Rightarrow> None
                | Some (x, r) \<Rightarrow>
                    if r = '']'' then Some [x]
                    else (case r of
                            [] \<Rightarrow> None
                          | k # r' \<Rightarrow>
                              if k \<noteq> CHR '','' then None
                              else (case string_elements n r' of
                                      None \<Rightarrow> None
                                    | Some xs \<Rightarrow> Some (x # xs)))))"

definition parse_string_array :: "string \<Rightarrow> error + int json" where
  "parse_string_array s =
     (case s of
        [] \<Rightarrow> Inl (Error ''SyntaxError'')
      | c # cs \<Rightarrow>
          if c \<noteq> CHR ''['' then Inl (Error ''SyntaxError'')
          else if cs = '']'' then Inr (JArr [])
          else (case string_elements (length cs) cs of
                  None \<Rightarrow> Inl (Error ''SyntaxError'')
                | Some xs \<Rightarrow> Inr (JArr (map JStr xs))))"

fun write_strings :: "string list \<Rightarrow> string" where
  "write_strings [] = []"
| "write_strings [x] = CHR 0x22 # x @ [CHR 0x22]"
| "write_strings (x # y # ys) = CHR 0x22 # x @ [CHR 0x22] @ '','' @ write_strings (y # ys)"

definition lib0 :: "int json_lib" where
  "lib0 = \<lparr>JSON_parse = parse_string_array,
            JSON_stringify = (\<lambda>xs. ''['' @ write_strings xs @ '']'')\<rparr>"

definition package0 :: package_row where
  "package0 = \<lparr>pk_id = ''p1'', pk_name = ''Basic'', pk_description = None, pk_price = 10,
               pk_currency = ''USD'', pk_features = Some ''fast, cheap'',
               pk_display_order = 0, pk_created_by = None, pk_active = True,
               pk_created_at = 100\<rparr>"

definition draw0 :: "nat \<Rightarrow> string \<times> int" where
  "draw0 i = (replicate (Suc i) CHR ''p'', 1000 + int i)"

definition db_malformed :: db where
  "db_malformed = empty_db\<lparr>packages := [package0]\<rparr>"

definition db_blank :: db where
  "db_blank = empty_db\<lparr>packages := [package0\<lparr>pk_features := Some []\<rparr>]\<rparr>"

definition jan31 :: int where
  "jan31 = 1738324800000"

definition jan15 :: int where
  "jan15 = 1736942400000"

definition alice_pro :: user_row where
  "alice_pro = alice\<lparr>u_plan := Pro\<rparr>"

definition sub_alice_inactive :: subscription_row where
  "sub_alice_inactive = sub_alice\<lparr>s_status := Inactive\<rparr>"

definition sub_alice_old :: subscription_row where
  "sub_alice_old = \<lparr>s_id = ''s0'', s_user_id = ''u1'', s_plan = Expert, s_status = Cancelled,
                    s_renewal_date = Some ''2024-07-01 09:30:00''\<rparr>"

definition db_second :: db where
  "db_second = empty_db\<lparr>users := [alice_pro], subscriptions := [sub_alice_old, sub_alice]\<rparr>"

definition sub_alice_cancelled :: subscription_row where
  "sub_alice_cancelled = sub_alice\<lparr>s_status := Cancelled\<rparr>"

definition db_pro :: db where
  "db_pro = empty_db\<lparr>users := [alice_pro, bob], subscriptions := [sub_alice]\<rparr>"

definition db_inactive :: db where
  "db_inactive = empty_db\<lparr>users := [alice_pro], subscriptions := [sub_alice_inactive]\<rparr>"

definition db_cancelled :: db where
  "db_cancelled = empty_db\<lparr>users := [alice_pro], subscriptions := [sub_alice_cancelled]\<rparr>"

section \<open>Verification\<close>

subsection \<open>User operations\<close>

lemma distinct_key_filter_one:
  "distinct (map f xs) \<Longrightarrow> k \<in> f ` set xs \<Longrightarrow> length (filter (\<lambda>x. f x = k) xs) = 1"
proof (induction xs)
  case Nil
  then show ?case by simp
next
  case (Cons x xs)
  show ?case
  proof (cases "f x = k")
    case True
    from Cons.prems(1) have "f x \<notin> f ` set xs" by simp
    with True have "\<forall>y \<in> set xs. f y \<noteq> k" by blast
    then have "filter (\<lambda>x. f x = k) xs = []" by (simp add: filter_empty_conv)
    with True show ?thesis by simp
  next
    case False
    with Cons show ?thesis by auto
  qed
qed

lemma distinct_key_filter_le_one:
  "distinct (map f xs) \<Longrightarrow> length (filter (\<lambda>x. f x = k) xs) \<le> 1"
proof (cases "k \<in> f ` set xs")
  case True
  assume "distinct (map f xs)"
  with True show ?thesis by (simp add: distinct_key_filter_one)
next
  case False
  then have "filter (\<lambda>x. f x = k) xs = []" by (auto simp: filter_empty_conv)
  then show ?thesis by simp
qed

lemma insert_users_cases:
  "insert_users env r d = Inl ER_DUP_ENTRY \<or> insert_users env r d = Inr (d\<lparr>users := users d @ [r]\<rparr>)"
  by (simp add: insert_users_def)



text \<open>
  C10. Whatever the caller passes, \<open>createUser\<close> persists and returns role \<open>user\<close>: the
  profile it returns has that role, the one row it may add has it, and the rows of
  \<open>users\<close> with another role and the \<open>admins\<close> table are what they were.
\<close>

theorem createUser_role_user:
  "(\<forall>u. fst (createUser env nid data d) = Inr u \<longrightarrow> p_role u = RUser)
   \<and> filter (\<lambda>r. u_role r \<noteq> RUser) (users (snd (createUser env nid data d)))
       = filter (\<lambda>r. u_role r \<noteq> RUser) (users d)
   \<and> admins (snd (createUser env nid data d)) = admins d
   \<and> (fst (createUser env nid data d) = Inl (Error ''Email already exists'')
        \<and> snd (createUser env nid data d) = d
      \<or> (\<exists>r. users (snd (createUser env nid data d)) = users d @ [r]
               \<and> u_role r = RUser \<and> u_id r = nid \<and> u_email r = cu_email data))"
  using insert_users_cases [of env
          "\<lparr>u_id = nid, u_email = cu_email data,
            u_password_hash = hashPassword env (cu_password data), u_name = cu_name data,
            u_role = RUser,
            u_plan = (case cu_plan data of None \<Rightarrow> Starter | Some p \<Rightarrow> p),
            u_status = Active\<rparr>" d]
  by (auto simp: createUser_def Let_def)

theorem createUser_role_user_witness:
  "fst (createUser env0 ''u1'' alice_data empty_db)
     = Inr \<lparr>p_id = ''u1'', p_email = ''alice@x.com'', p_name = ''Alice'', p_role = RUser,
             p_plan = Some Starter, p_status = Active\<rparr>
   \<and> p_role \<lparr>p_id = ''u1'', p_email = ''alice@x.com'', p_name = ''Alice'', p_role = RUser,
             p_plan = Some Starter, p_status = Active\<rparr> = RUser
   \<and> filter (\<lambda>r. u_role r \<noteq> RUser) (users (snd (createUser env0 ''u1'' alice_data empty_db))) = []"
  using createUser_role_user [where env = env0 and data = alice_data and nid = "''u1''" and d = empty_db]
  by (simp add: createUser_def insert_users_def env0_def alice_data_def empty_db_def
        hashPassword_def)

subsection \<open>Sessions\<close>

lemma filter_token_expired_empty:
  assumes uniq: "distinct (map f xs)" and mem: "s \<in> set xs" and bad: "\<not> P s"
  shows "filter (\<lambda>x. f x = f s \<and> P x) xs = []"
proof -
  have "x = s" if "x \<in> set xs" "f x = f s" for x
    using uniq mem that by (meson distinct_map inj_onD)
  with bad show ?thesis by (auto simp: filter_empty_conv)
qed

text \<open>
  C3. A stored session whose \<open>expires_at\<close> is at or before the current time is not returned
  by \<open>getSessionByToken\<close>, which gives null for its token although the row is still in
  \<open>user_sessions\<close> (the lookup deletes nothing); the tokens are unique, as the schema's
  \<open>UNIQUE\<close> on \<open>session_token\<close> has it. Whatever the table holds, a session that is returned
  expires after the current time.
\<close>

theorem getSessionByToken_expired:
  "(distinct (map (\<lambda>s. coll env (ss_session_token s)) (user_sessions d))
      \<and> s \<in> set (user_sessions d) \<and> ss_expires_at s = Some e \<and> e \<le> now
      \<longrightarrow> getSessionByToken env (ss_session_token s) now d = None)
   \<and> (\<forall>v. getSessionByToken env tok now d = Some v
          \<longrightarrow> (\<exists>e'. sv_expires_at v = Some e' \<and> now < e'))"
proof (intro conjI impI allI)
  assume a: "distinct (map (\<lambda>s. coll env (ss_session_token s)) (user_sessions d))
      \<and> s \<in> set (user_sessions d) \<and> ss_expires_at s = Some e \<and> e \<le> now"
  then have "\<not> (case ss_expires_at s of None \<Rightarrow> False | Some e \<Rightarrow> e > now)" by simp
  with a have "filter (\<lambda>x. coll env (ss_session_token x) = coll env (ss_session_token s)
                     \<and> (case ss_expires_at x of None \<Rightarrow> False | Some e \<Rightarrow> e > now))
                 (user_sessions d) = []"
    by (intro filter_token_expired_empty) auto
  then show "getSessionByToken env (ss_session_token s) now d = None"
    by (simp add: getSessionByToken_def)
next
  fix v
  assume r: "getSessionByToken env tok now d = Some v"
  let ?P = "\<lambda>s. coll env (ss_session_token s) = coll env tok
                \<and> (case ss_expires_at s of None \<Rightarrow> False | Some e \<Rightarrow> e > now)"
  from r obtain x xs where f: "filter ?P (user_sessions d) = x # xs"
    and v: "v = \<lparr>sv_id = ss_id x, sv_user_id = ss_user_id x, sv_expires_at = ss_expires_at x\<rparr>"
    by (auto simp: getSessionByToken_def split: list.splits)
  from f have "x \<in> set (filter ?P (user_sessions d))" by simp
  then have "?P x" by simp
  with v show "\<exists>e'. sv_expires_at v = Some e' \<and> now < e'"
    by (cases "ss_expires_at x") auto
qed

theorem getSessionByToken_expired_witness:
  "getSessionByToken env0 ''tok'' 1000 (empty_db\<lparr>user_sessions := [session0]\<rparr>) = None
   \<and> getSessionByToken env0 ''tok'' 999 (empty_db\<lparr>user_sessions := [session0]\<rparr>)
       = Some \<lparr>sv_id = ''s1'', sv_user_id = ''u1'', sv_expires_at = Some 1000\<rparr>
   \<and> (\<exists>e'. sv_expires_at \<lparr>sv_id = ''s1'', sv_user_id = ''u1'', sv_expires_at = Some 1000\<rparr>
               = Some e' \<and> (999::int) < e')"
proof -
  have 1: "getSessionByToken env0 ''tok'' 999 (empty_db\<lparr>user_sessions := [session0]\<rparr>)
       = Some \<lparr>sv_id = ''s1'', sv_user_id = ''u1'', sv_expires_at = Some 1000\<rparr>"
    by (simp add: getSessionByToken_def env0_def empty_db_def session0_def)
  have 2: "distinct (map (\<lambda>s. coll env0 (ss_session_token s))
                      (user_sessions (empty_db\<lparr>user_sessions := [session0]\<rparr>)))
      \<and> session0 \<in> set (user_sessions (empty_db\<lparr>user_sessions := [session0]\<rparr>))
      \<and> ss_expires_at session0 = Some 1000 \<and> (1000::int) \<le> 1000"
    by (simp add: session0_def)
  have 3: "ss_session_token session0 = ''tok''" by (simp add: session0_def)
  note t = getSessionByToken_expired
             [where env = env0 and d = "empty_db\<lparr>user_sessions := [session0]\<rparr>"
                and s = session0 and e = 1000 and now = 1000 and tok = "''tok''"]
  note u = getSessionByToken_expired
             [where env = env0 and d = "empty_db\<lparr>user_sessions := [session0]\<rparr>"
                and s = session0 and e = 1000 and now = 999 and tok = "''tok''"]
  from t 2 3 have "getSessionByToken env0 ''tok'' 1000 (empty_db\<lparr>user_sessions := [session0]\<rparr>) = None"
    by simp
  moreover from u 1 have "\<exists>e'. sv_expires_at \<lparr>sv_id = ''s1'', sv_user_id = ''u1'', sv_expires_at = Some 1000\<rparr>
               = Some e' \<and> (999::int) < e'"
    by blast
  ultimately show ?thesis using 1 by blast
qed

subsection \<open>Passwords\<close>



subsection \<open>Renewal date\<close>

lemma jan31_iso: "toISOString jan31 = ''2025-01-31T12:00:00.000Z''"
  unfolding jan31_def by code_simp

lemma jan15_iso: "toISOString jan15 = ''2025-01-15T12:00:00.000Z''"
  unfolding jan15_def by code_simp

text \<open>
  C6. The renewal date \<open>createSubscription\<close> stores, evaluated on a server in UTC. A
  subscription created on 2025-01-15 at 12:00:00Z gets 2025-02-15 12:00:00, one calendar
  month later. One created on 2025-01-31 at 12:00:00Z gets 2025-03-03 12:00:00:
  \<open>setMonth\<close> keeps the day of month 31, which February does not have, and the date runs
  over into March, so that the renewal date is not in the calendar month after the
  creation.
\<close>

theorem createSubscription_renewal_month_end:
  "createSubscription env0 ''s1'' jan15 ''u1'' Pro (empty_db\<lparr>users := [alice]\<rparr>)
     = (Inr \<lparr>sub_id = ''s1'', sub_plan = Pro, sub_status = Active,
              sub_renewal_date = Some ''2025-02-15T12:00:00.000Z''\<rparr>,
        empty_db\<lparr>users := [alice],
                 subscriptions := [\<lparr>s_id = ''s1'', s_user_id = ''u1'', s_plan = Pro,
                                    s_status = Active,
                                    s_renewal_date = Some ''2025-02-15 12:00:00''\<rparr>]\<rparr>)
   \<and> createSubscription env0 ''s1'' jan31 ''u1'' Pro (empty_db\<lparr>users := [alice]\<rparr>)
     = (Inr \<lparr>sub_id = ''s1'', sub_plan = Pro, sub_status = Active,
              sub_renewal_date = Some ''2025-03-03T12:00:00.000Z''\<rparr>,
        empty_db\<lparr>users := [alice],
                 subscriptions := [\<lparr>s_id = ''s1'', s_user_id = ''u1'', s_plan = Pro,
                                    s_status = Active,
                                    s_renewal_date = Some ''2025-03-03 12:00:00''\<rparr>]\<rparr>)
   \<and> MonthFromTime jan31 = 0
   \<and> MonthFromTime (setMonth env0 jan31 (getMonth env0 jan31 + 1)) = 2"
proof -
  have a: "toISOString (setMonth env0 jan15 (getMonth env0 jan15 + 1)) = ''2025-02-15T12:00:00.000Z''"
    unfolding jan15_def by code_simp
  have b: "toSqlDatetime (setMonth env0 jan15 (getMonth env0 jan15 + 1)) = ''2025-02-15 12:00:00''"
    unfolding jan15_def by code_simp
  have c: "toISOString (setMonth env0 jan31 (getMonth env0 jan31 + 1)) = ''2025-03-03T12:00:00.000Z''"
    unfolding jan31_def by code_simp
  have e: "toSqlDatetime (setMonth env0 jan31 (getMonth env0 jan31 + 1)) = ''2025-03-03 12:00:00''"
    unfolding jan31_def by code_simp
  have f: "MonthFromTime jan31 = 0"
    unfolding jan31_def by code_simp
  have g: "MonthFromTime (setMonth env0 jan31 (getMonth env0 jan31 + 1)) = 2"
    unfolding jan31_def by code_simp
  have h: "coll env0 = (\<lambda>s. s)" by (simp add: env0_def)
  have 1: "createSubscription env0 ''s1'' jan15 ''u1'' Pro (empty_db\<lparr>users := [alice]\<rparr>)
     = (Inr \<lparr>sub_id = ''s1'', sub_plan = Pro, sub_status = Active,
              sub_renewal_date = Some ''2025-02-15T12:00:00.000Z''\<rparr>,
        empty_db\<lparr>users := [alice],
                 subscriptions := [\<lparr>s_id = ''s1'', s_user_id = ''u1'', s_plan = Pro,
                                    s_status = Active,
                                    s_renewal_date = Some ''2025-02-15 12:00:00''\<rparr>]\<rparr>)"
    by (simp add: createSubscription_def insert_subscriptions_def sub_key_def a b h
          empty_db_def alice_def)
  have 2: "createSubscription env0 ''s1'' jan31 ''u1'' Pro (empty_db\<lparr>users := [alice]\<rparr>)
     = (Inr \<lparr>sub_id = ''s1'', sub_plan = Pro, sub_status = Active,
              sub_renewal_date = Some ''2025-03-03T12:00:00.000Z''\<rparr>,
        empty_db\<lparr>users := [alice],
                 subscriptions := [\<lparr>s_id = ''s1'', s_user_id = ''u1'', s_plan = Pro,
                                    s_status = Active,
                                    s_renewal_date = Some ''2025-03-03 12:00:00''\<rparr>]\<rparr>)"
    by (simp add: createSubscription_def insert_subscriptions_def sub_key_def c e h
          empty_db_def alice_def)
  from 1 2 f g show ?thesis by blast
qed

subsection \<open>The unique key of subscriptions\<close>

lemma insert_subscriptions_unique:
  "insert_subscriptions env r d = Inr d' \<Longrightarrow> unique_active_subscription env d
     \<Longrightarrow> unique_active_subscription env d'"
  by (auto simp: insert_subscriptions_def unique_active_subscription_def split: if_splits)

lemma update_subscriptions_unique:
  assumes "update_subscriptions env sid f d = Inr d'"
    and "unique_active_subscription env d"
  shows "unique_active_subscription env d'"
proof -
  let ?new = "map (\<lambda>s. if coll env (s_id s) = coll env sid then f s else s) (subscriptions d)"
  from assms(1) have d': "d' = d\<lparr>subscriptions := ?new\<rparr>"
    and c: "map (sub_key env) ?new = map (sub_key env) (subscriptions d)
            \<or> distinct (map (sub_key env) ?new)"
    by (simp_all add: update_subscriptions_def Let_def split: if_splits)
  from c have "distinct (map (sub_key env) ?new)"
  proof
    assume "map (sub_key env) ?new = map (sub_key env) (subscriptions d)"
    with assms(2) show ?thesis by (simp only: unique_active_subscription_def)
  qed
  with d' show ?thesis by (simp add: unique_active_subscription_def)
qed

lemma createUser_subscriptions:
  "createUser env nid data d = (r, d') \<Longrightarrow> subscriptions d' = subscriptions d"
  by (auto simp: createUser_def insert_users_def Let_def split: if_splits)

lemma updateUser_subscriptions:
  "updateUser env uid data d = (r, d') \<Longrightarrow> subscriptions d' = subscriptions d"
  by (auto simp: updateUser_def update_users_def Let_def split: if_splits)

lemma updatePassword_subscriptions:
  "updatePassword env uid pw d = (r, d') \<Longrightarrow> subscriptions d' = subscriptions d"
  by (auto simp: updatePassword_def Let_def split: if_splits)

lemma logAuditAction_subscriptions:
  "logAuditAction env nid data d = (r, d') \<Longrightarrow> subscriptions d' = subscriptions d"
  by (auto simp: logAuditAction_def insert_audit_logs_def Let_def split: if_splits)

lemma createSubscription_unique:
  "createSubscription env nid now uid p d = (r, d') \<Longrightarrow> unique_active_subscription env d
     \<Longrightarrow> unique_active_subscription env d'"
  by (auto simp: createSubscription_def Let_def split: sum.splits
           dest: insert_subscriptions_unique)

lemma updateSubscription_unique:
  "updateSubscription env sid data d = (r, d') \<Longrightarrow> unique_active_subscription env d
     \<Longrightarrow> unique_active_subscription env d'"
  by (auto simp: updateSubscription_def split: sum.splits if_splits
           dest: update_subscriptions_unique)

lemma cancelSubscription_db_unique:
  "cancelSubscription_db env sid d = (r, d') \<Longrightarrow> unique_active_subscription env d
     \<Longrightarrow> unique_active_subscription env d'"
  by (auto simp: cancelSubscription_db_def split: sum.splits
           dest: update_subscriptions_unique)

lemma deleteUser_unique:
  "deleteUser env uid d = (r, d') \<Longrightarrow> unique_active_subscription env d
     \<Longrightarrow> unique_active_subscription env d'"
  by (auto simp: deleteUser_def unique_active_subscription_def Let_def distinct_map_filter)

lemma unique_subscriptions_cong:
  "subscriptions d' = subscriptions d \<Longrightarrow> unique_active_subscription env d
     \<Longrightarrow> unique_active_subscription env d'"
  by (simp add: unique_active_subscription_def)

lemma changeAdminPassword_unique:
  assumes "changeAdminPassword env aid token pw d = (r, d')"
    and "unique_active_subscription env d"
  shows "unique_active_subscription env d'"
proof (cases "verifyAdminRole env token")
  case (Inl e)
  with assms show ?thesis by (simp add: changeAdminPassword_def)
next
  case (Inr uid)
  obtain r1 d1 where c: "updatePassword env uid pw d = (r1, d1)"
    by (cases "updatePassword env uid pw d")
  then have s1: "subscriptions d1 = subscriptions d" by (rule updatePassword_subscriptions)
  let ?data = "\<lparr>ad_userId = Some uid, ad_action = ''admin_password_changed'',
                ad_entityType = Some ''user'', ad_entityId = Some uid,
                ad_changes = Some (JObj [(''password_updated'', JBool True)]),
                ad_ipAddress = None\<rparr>"
  obtain r2 d2 where l: "logAuditAction env aid ?data d1 = (r2, d2)"
    by (cases "logAuditAction env aid ?data d1")
  then have s2: "subscriptions d2 = subscriptions d1" by (rule logAuditAction_subscriptions)
  have "d' = d1 \<or> d' = d2"
    using assms(1) Inr c l
    by (auto simp: changeAdminPassword_def split: sum.splits)
  with s1 s2 have "subscriptions d' = subscriptions d" by auto
  with assms(2) show ?thesis by (simp add: unique_active_subscription_def)
qed

lemma activateSubscription_unique:
  assumes "activateSubscription env sid aid now token p d = (r, d')"
    and "unique_active_subscription env d"
  shows "unique_active_subscription env d'"
proof (cases "getCurrentUserId env token")
  case (Inl e)
  with assms show ?thesis by (simp add: activateSubscription_def)
next
  case (Inr ou)
  show ?thesis
  proof (cases ou)
    case None
    with Inr assms show ?thesis by (simp add: activateSubscription_def)
  next
    case (Some uid)
    obtain r1 d1 where c: "createSubscription env sid now uid p d = (r1, d1)"
      by (cases "createSubscription env sid now uid p d")
    then have u1: "unique_active_subscription env d1"
      using assms(2) by (rule createSubscription_unique)
    show ?thesis
    proof (cases r1)
      case (Inl e)
      with Inr Some c assms(1) u1 show ?thesis by (simp add: activateSubscription_def)
    next
      case r1: (Inr sub)
      obtain r2 d2 where uu: "updateUser env uid
            \<lparr>uu_name = None, uu_email = None, uu_plan = Some p, uu_status = None\<rparr> d1 = (r2, d2)"
        by (cases "updateUser env uid
            \<lparr>uu_name = None, uu_email = None, uu_plan = Some p, uu_status = None\<rparr> d1")
      then have s2: "subscriptions d2 = subscriptions d1" by (rule updateUser_subscriptions)
      let ?data = "\<lparr>ad_userId = Some uid, ad_action = ''subscription_activated'',
                    ad_entityType = Some ''subscription'', ad_entityId = Some (sub_id sub),
                    ad_changes = Some (JObj [(''plan'', JStr (plan_name p))]),
                    ad_ipAddress = None\<rparr>"
      obtain r3 d3 where l: "logAuditAction env aid ?data d2 = (r3, d3)"
        by (cases "logAuditAction env aid ?data d2")
      then have s3: "subscriptions d3 = subscriptions d2" by (rule logAuditAction_subscriptions)
      have "d' = d2 \<or> d' = d3"
        using assms(1) Inr Some c r1 uu l
        by (auto simp: activateSubscription_def split: sum.splits)
      with s2 s3 have "subscriptions d' = subscriptions d1" by auto
      with u1 show ?thesis by (simp add: unique_active_subscription_def)
    qed
  qed
qed

lemma cancelSubscription_unique:
  assumes "cancelSubscription env aid token sid d = (r, d')"
    and "unique_active_subscription env d"
  shows "unique_active_subscription env d'"
proof -
  let ?data = "\<lparr>us_plan = None, us_status = Some Cancelled, us_renewal_date = None\<rparr>"
  obtain r1 d1 where c: "updateSubscription env sid ?data d = (r1, d1)"
    by (cases "updateSubscription env sid ?data d")
  then have u1: "unique_active_subscription env d1"
    using assms(2) by (rule updateSubscription_unique)
  have "d' = d \<or> subscriptions d' = subscriptions d1"
  proof (cases "getCurrentUserId env token")
    case (Inl e)
    with assms(1) show ?thesis by (simp add: cancelSubscription_def)
  next
    case (Inr ou)
    show ?thesis
    proof (cases ou)
      case None
      with Inr assms(1) show ?thesis by (simp add: cancelSubscription_def)
    next
      case (Some uid)
      let ?ud = "\<lparr>uu_name = None, uu_email = None, uu_plan = Some Starter,
                  uu_status = None\<rparr>"
      obtain r2 d2 where uu: "updateUser env uid ?ud d1 = (r2, d2)"
        by (cases "updateUser env uid ?ud d1")
      then have s2: "subscriptions d2 = subscriptions d1" by (rule updateUser_subscriptions)
      let ?ad = "\<lparr>ad_userId = Some uid, ad_action = ''subscription_cancelled'',
                  ad_entityType = Some ''subscription'', ad_entityId = Some sid,
                  ad_changes = Some (JObj [(''status'', JStr ''Cancelled'')]),
                  ad_ipAddress = None\<rparr>"
      obtain r3 d3 where l: "logAuditAction env aid ?ad d2 = (r3, d3)"
        by (cases "logAuditAction env aid ?ad d2")
      then have s3: "subscriptions d3 = subscriptions d2" by (rule logAuditAction_subscriptions)
      have "d' = d \<or> d' = d1 \<or> d' = d2 \<or> d' = d3"
        using assms(1) Inr Some c uu l
        by (auto simp: cancelSubscription_def split: sum.splits option.splits if_splits)
      with s2 s3 show ?thesis by auto
    qed
  qed
  with u1 assms(2) show ?thesis
    by (auto intro: unique_subscriptions_cong)
qed

lemma run_unique:
  "unique_active_subscription env d \<Longrightarrow> unique_active_subscription env (run env c d)"
proof (cases c)
  case (CreateUser nid data)
  assume "unique_active_subscription env d"
  then show ?thesis
    using createUser_subscriptions[of env nid data d] CreateUser
    by (cases "createUser env nid data d") (auto intro: unique_subscriptions_cong)
next
  case (UpdateUser uid data)
  assume "unique_active_subscription env d"
  then show ?thesis
    using updateUser_subscriptions[of env uid data d] UpdateUser
    by (cases "updateUser env uid data d") (auto intro: unique_subscriptions_cong)
next
  case (DeleteUser uid)
  assume "unique_active_subscription env d"
  then show ?thesis
    using deleteUser_unique[of env uid d] DeleteUser
    by (cases "deleteUser env uid d") auto
next
  case (UpdatePassword uid pw)
  assume "unique_active_subscription env d"
  then show ?thesis
    using updatePassword_subscriptions[of env uid pw d] UpdatePassword
    by (cases "updatePassword env uid pw d") (auto intro: unique_subscriptions_cong)
next
  case (ChangeAdminPassword aid token pw)
  assume "unique_active_subscription env d"
  then show ?thesis
    using changeAdminPassword_unique[of env aid token pw d] ChangeAdminPassword
    by (cases "changeAdminPassword env aid token pw d") auto
next
  case (CreateSubscription nid now uid p)
  assume "unique_active_subscription env d"
  then show ?thesis
    using createSubscription_unique[of env nid now uid p d] CreateSubscription
    by (cases "createSubscription env nid now uid p d") auto
next
  case (UpdateSubscription sid data)
  assume "unique_active_subscription env d"
  then show ?thesis
    using updateSubscription_unique[of env sid data d] UpdateSubscription
    by (cases "updateSubscription env sid data d") auto
next
  case (CancelSubscription_db sid)
  assume "unique_active_subscription env d"
  then show ?thesis
    using cancelSubscription_db_unique[of env sid d] CancelSubscription_db
    by (cases "cancelSubscription_db env sid d") auto
next
  case (ActivateSubscription sid aid now token p)
  assume "unique_active_subscription env d"
  then show ?thesis
    using activateSubscription_unique[of env sid aid now token p d] ActivateSubscription
    by (cases "activateSubscription env sid aid now token p d") auto
next
  case (CancelSubscription aid token sid)
  assume "unique_active_subscription env d"
  then show ?thesis
    using cancelSubscription_unique[of env aid token sid d] CancelSubscription
    by (cases "cancelSubscription env aid token sid d") auto
qed

lemma reachable_unique: "reachable env d \<Longrightarrow> unique_active_subscription env d"
proof (induction rule: reachable.induct)
  case initial
  show ?case by (simp add: unique_active_subscription_def initial_db_def empty_db_def)
next
  case (step d c)
  then show ?case by (simp add: run_unique)
qed

lemma active_filter_le_one:
  assumes "unique_active_subscription env d"
  shows "length (filter (\<lambda>s. coll env (s_user_id s) = coll env u \<and> s_status s = Active)
                   (subscriptions d)) \<le> 1"
proof -
  have "(\<lambda>s. coll env (s_user_id s) = coll env u \<and> s_status s = Active)
          = (\<lambda>s. sub_key env s = (coll env u, Active))"
    by (auto simp: sub_key_def)
  moreover have "length (filter (\<lambda>s. sub_key env s = (coll env u, Active)) (subscriptions d)) \<le> 1"
    using assms unfolding unique_active_subscription_def by (rule distinct_key_filter_le_one)
  ultimately show ?thesis by simp
qed

lemma logAuditAction_fresh:
  assumes "coll env nid \<notin> set (map (\<lambda>a. coll env (al_id a)) (audit_logs d))"
    and "case or_null (ad_ipAddress data) of None \<Rightarrow> True | Some ip \<Rightarrow> length ip \<le> 45"
  shows "logAuditAction env nid data d =
           (Inr (),
            d\<lparr>audit_logs := audit_logs d @
               [\<lparr>al_id = nid,
                 al_user_id =
                   (case ad_userId data of
                      None \<Rightarrow> None
                    | Some u \<Rightarrow>
                        if u \<noteq> [] \<and> (\<exists>x \<in> set (users d). coll env (u_id x) = coll env u)
                        then Some u else None),
                 al_action = ad_action data,
                 al_entity_type = or_null (ad_entityType data),
                 al_entity_id = or_null (ad_entityId data),
                 al_changes = ad_changes data,
                 al_ip_address = or_null (ad_ipAddress data)\<rparr>]\<rparr>)"
proof -
  have ex: "filter (\<lambda>x. coll env (u_id x) = coll env u) (users d) \<noteq> []
              \<longleftrightarrow> (\<exists>x \<in> set (users d). coll env (u_id x) = coll env u)" for u
    by (simp add: filter_empty_conv)
  have fk: "coll env u \<in> (\<lambda>x. coll env (u_id x)) ` set (users d)
              \<longleftrightarrow> (\<exists>x \<in> set (users d). coll env (u_id x) = coll env u)" for u
    unfolding image_iff by metis
  show ?thesis
  proof (cases "ad_userId data")
    case None
    with assms show ?thesis
      by (auto simp: logAuditAction_def insert_audit_logs_def Let_def split: option.splits)
  next
    case (Some u)
    with assms show ?thesis
      by (auto simp: logAuditAction_def insert_audit_logs_def Let_def ex fk
               split: option.splits)
  qed
qed

lemma filter_key_singleton:
  "distinct (map f xs) \<Longrightarrow> x \<in> set xs \<Longrightarrow> filter (\<lambda>y. f y = f x) xs = [x]"
proof (induction xs)
  case Nil
  then show ?case by simp
next
  case (Cons a xs)
  show ?case
  proof (cases "a = x")
    case True
    from Cons.prems(1) have "f a \<notin> f ` set xs" by simp
    with True have "\<forall>y \<in> set xs. f y \<noteq> f x" by (metis imageI)
    then have "filter (\<lambda>y. f y = f x) xs = []"
      by (simp add: filter_empty_conv)
    with True show ?thesis by simp
  next
    case False
    with Cons.prems have x: "x \<in> set xs" by simp
    from Cons.prems(1) have "f a \<notin> f ` set xs" by simp
    with x have "f a \<noteq> f x" by blast
    moreover from Cons.IH Cons.prems(1) x have "filter (\<lambda>y. f y = f x) xs = [x]" by simp
    ultimately show ?thesis by simp
  qed
qed

lemma distinct_map_update_one:
  assumes "distinct (map i xs)" and "distinct (map k xs)"
    and "\<forall>x \<in> set xs. i x = a \<longrightarrow> (\<forall>y \<in> set xs. y \<noteq> x \<longrightarrow> k (g x) \<noteq> k y)"
  shows "distinct (map k (map (\<lambda>x. if i x = a then g x else x) xs))"
  using assms
proof (induction xs)
  case Nil
  then show ?case by simp
next
  case (Cons x xs)
  let ?u = "\<lambda>x. if i x = a then g x else x"
  have ih: "distinct (map k (map ?u xs))"
    using Cons.prems by (intro Cons.IH) auto
  have ne: "k (?u x) \<noteq> k (?u y)" if y: "y \<in> set xs" for y
  proof -
    from Cons.prems(1) y have ne: "i x \<noteq> i y" and xy: "x \<noteq> y" by auto
    from Cons.prems(2) y have kk: "k x \<noteq> k y" by auto
    show ?thesis
    proof (cases "i x = a")
      case True
      with ne have "i y \<noteq> a" by simp
      moreover from Cons.prems(3) True y xy have "k (g x) \<noteq> k y" by auto
      ultimately show ?thesis using True by simp
    next
      case False
      show ?thesis
      proof (cases "i y = a")
        case True
        with Cons.prems(3) y xy have "k (g y) \<noteq> k x" by (metis list.set_intros(1,2))
        with True False show ?thesis by simp
      next
        case F2: False
        with False kk show ?thesis by simp
      qed
    qed
  qed
  have notin: "k (?u x) \<notin> set (map k (map ?u xs))"
  proof
    assume "k (?u x) \<in> set (map k (map ?u xs))"
    then obtain y where "y \<in> set xs" "k (?u x) = k (?u y)"
      by (auto simp: image_iff)
    with ne show False by blast
  qed
  show ?case
    unfolding list.map distinct.simps using ih notin by blast
qed

lemma updateUser_plan_only:
  "updateUser env uid \<lparr>uu_name = None, uu_email = None, uu_plan = Some p, uu_status = None\<rparr> d
     = (Inr (), d\<lparr>users := map (\<lambda>u. if coll env (u_id u) = coll env uid
                                        then u\<lparr>u_plan := p\<rparr> else u) (users d)\<rparr>)"
proof -
  let ?data = "\<lparr>uu_name = None, uu_email = None, uu_plan = Some p, uu_status = None\<rparr>"
  have p: "patch_user ?data u = u\<lparr>u_plan := p\<rparr>" for u
    by (simp add: patch_user_def)
  have "map (\<lambda>u. coll env (u_email u))
          (map (\<lambda>u. if coll env (u_id u) = coll env uid then patch_user ?data u else u) (users d))
        = map (\<lambda>u. coll env (u_email u)) (users d)"
    by (induction "users d") (auto simp: p)
  then show ?thesis
    by (simp add: updateUser_def update_users_def Let_def p)
qed

text \<open>
  C1. In every state the database reaches from the one the schema script leaves, by the
  calls that write to \<open>users\<close> and \<open>subscriptions\<close>, a user has at most one subscription
  row with status Active. Activating while the user of the
  token has an Active row fails with the duplicate-key error \<open>ER_DUP_ENTRY\<close> of the unique
  key, in \<open>createSubscription\<close> and so in \<open>activateSubscription\<close>, and the database is
  what it was: no second Active row.
\<close>

theorem activateSubscription_conflict:
  "(reachable env d \<longrightarrow>
      length (filter (\<lambda>s. coll env (s_user_id s) = coll env u \<and> s_status s = Active)
                (subscriptions d)) \<le> 1)
   \<and> ((\<exists>s \<in> set (subscriptions d). coll env (s_user_id s) = coll env uid \<and> s_status s = Active)
        \<longrightarrow> createSubscription env sid now uid planName d = (Inl (DbError ER_DUP_ENTRY), d)
            \<and> (getCurrentUserId env token = Inr (Some uid) \<longrightarrow>
                 activateSubscription env sid aid now token planName d
                   = (Inl (DbError ER_DUP_ENTRY), d)))"
proof (intro conjI impI)
  assume "reachable env d"
  then have "unique_active_subscription env d" by (rule reachable_unique)
  then show "length (filter (\<lambda>s. coll env (s_user_id s) = coll env u \<and> s_status s = Active)
                (subscriptions d)) \<le> 1"
    by (rule active_filter_le_one)
next
  assume "\<exists>s \<in> set (subscriptions d). coll env (s_user_id s) = coll env uid \<and> s_status s = Active"
  then obtain s where "s \<in> set (subscriptions d)" "sub_key env s = (coll env uid, Active)"
    by (auto simp: sub_key_def)
  then have "(coll env uid, Active) \<in> set (map (sub_key env) (subscriptions d))"
    by force
  then show c: "createSubscription env sid now uid planName d = (Inl (DbError ER_DUP_ENTRY), d)"
    by (simp add: createSubscription_def insert_subscriptions_def sub_key_def Let_def)
  assume "getCurrentUserId env token = Inr (Some uid)"
  with c show "activateSubscription env sid aid now token planName d
                 = (Inl (DbError ER_DUP_ENTRY), d)"
    by (simp add: activateSubscription_def)
qed

theorem activateSubscription_conflict_witness:
  "reachable env0
     (run env0 (ActivateSubscription ''s1'' ''a1'' jan15 ''tok-alice'' Pro)
        (run env0 (CreateUser ''u1'' alice_data) initial_db))
   \<and> length (filter (\<lambda>s. s_user_id s = ''u1'' \<and> s_status s = Active)
        (subscriptions
          (run env0 (ActivateSubscription ''s1'' ''a1'' jan15 ''tok-alice'' Pro)
             (run env0 (CreateUser ''u1'' alice_data) initial_db)))) \<le> 1
   \<and> createSubscription env0 ''s2'' jan31 ''u1'' Expert
         (empty_db\<lparr>users := [alice], subscriptions := [sub_alice]\<rparr>)
       = (Inl (DbError ER_DUP_ENTRY), empty_db\<lparr>users := [alice], subscriptions := [sub_alice]\<rparr>)
   \<and> activateSubscription env0 ''s2'' ''a2'' jan31 ''tok-alice'' Expert
         (empty_db\<lparr>users := [alice], subscriptions := [sub_alice]\<rparr>)
       = (Inl (DbError ER_DUP_ENTRY), empty_db\<lparr>users := [alice], subscriptions := [sub_alice]\<rparr>)"
proof -
  let ?d = "run env0 (ActivateSubscription ''s1'' ''a1'' jan15 ''tok-alice'' Pro)
              (run env0 (CreateUser ''u1'' alice_data) initial_db)"
  let ?e = "empty_db\<lparr>users := [alice], subscriptions := [sub_alice]\<rparr>"
  have r: "reachable env0 ?d"
    by (intro reachable.step reachable.initial)
  have c: "coll env0 = (\<lambda>s. s)" by (simp add: env0_def)
  have h: "\<exists>s \<in> set (subscriptions ?e). coll env0 (s_user_id s) = coll env0 ''u1''
             \<and> s_status s = Active"
    by (simp add: sub_alice_def)
  have t: "getCurrentUserId env0 ''tok-alice'' = Inr (Some ''u1'')"
    by (simp add: getCurrentUserId_def env0_def)
  from activateSubscription_conflict
         [where env = env0 and d = ?d and u = "''u1''" and uid = "''u1''"] r c
  have 1: "length (filter (\<lambda>s. s_user_id s = ''u1'' \<and> s_status s = Active) (subscriptions ?d)) \<le> 1"
    by simp
  from activateSubscription_conflict
         [where env = env0 and d = ?e and uid = "''u1''" and token = "''tok-alice''"
            and sid = "''s2''" and aid = "''a2''" and now = jan31 and planName = Expert] h t
  have 2: "createSubscription env0 ''s2'' jan31 ''u1'' Expert ?e = (Inl (DbError ER_DUP_ENTRY), ?e)
         \<and> activateSubscription env0 ''s2'' ''a2'' jan31 ''tok-alice'' Expert ?e
             = (Inl (DbError ER_DUP_ENTRY), ?e)"
    by blast
  from r 1 2 show ?thesis by blast
qed

subsection \<open>Cancelling\<close>

lemma getSubscription_active_row:
  assumes uniq: "unique_active_subscription env d"
    and r: "r \<in> set (subscriptions d)" "coll env (s_user_id r) = coll env uid"
           "s_status r = Active"
  shows "getSubscription env uid d
           = Some \<lparr>sub_id = s_id r, sub_plan = s_plan r, sub_status = s_status r,
                    sub_renewal_date = s_renewal_date r\<rparr>"
proof -
  have "(\<lambda>s. coll env (s_user_id s) = coll env uid \<and> s_status s = Active)
          = (\<lambda>s. sub_key env s = sub_key env r)"
    using r(2,3) by (auto simp: sub_key_def)
  moreover have "filter (\<lambda>s. sub_key env s = sub_key env r) (subscriptions d) = [r]"
    using uniq r(1) unfolding unique_active_subscription_def by (rule filter_key_singleton)
  ultimately show ?thesis by (simp add: getSubscription_def)
qed

lemma getSubscription_Some:
  assumes "getSubscription env uid d = Some sub"
  shows "\<exists>s \<in> set (subscriptions d). s_id s = sub_id sub
           \<and> coll env (s_user_id s) = coll env uid \<and> s_status s = Active"
proof -
  let ?P = "\<lambda>s. coll env (s_user_id s) = coll env uid \<and> s_status s = Active"
  from assms obtain x xs where f: "filter ?P (subscriptions d) = x # xs"
    and sub: "sub = \<lparr>sub_id = s_id x, sub_plan = s_plan x, sub_status = s_status x,
                       sub_renewal_date = s_renewal_date x\<rparr>"
    by (auto simp: getSubscription_def split: list.splits)
  from f have "x \<in> set (filter ?P (subscriptions d))" by simp
  then have "x \<in> set (subscriptions d)" "?P x" by simp_all
  with sub show ?thesis by auto
qed

lemma cancel_update_accepted:
  assumes uniq: "unique_active_subscription env d"
    and pk: "distinct (map (\<lambda>s. coll env (s_id s)) (subscriptions d))"
    and r: "r \<in> set (subscriptions d)" "s_id r = sid" "coll env (s_user_id r) = coll env uid"
    and nc: "\<forall>s \<in> set (subscriptions d).
               coll env (s_user_id s) = coll env uid \<longrightarrow> s_status s \<noteq> Cancelled"
  shows "updateSubscription env sid
           \<lparr>us_plan = None, us_status = Some Cancelled, us_renewal_date = None\<rparr> d
         = (Inr (),
            d\<lparr>subscriptions :=
                map (\<lambda>s. if coll env (s_id s) = coll env sid then s\<lparr>s_status := Cancelled\<rparr> else s)
                    (subscriptions d)\<rparr>)"
proof -
  let ?data = "\<lparr>us_plan = None, us_status = Some Cancelled, us_renewal_date = None\<rparr>"
  have p: "patch_subscription ?data s = s\<lparr>s_status := Cancelled\<rparr>" for s
    by (simp add: patch_subscription_def)
  have "\<forall>x \<in> set (subscriptions d). coll env (s_id x) = coll env sid \<longrightarrow>
          (\<forall>y \<in> set (subscriptions d). y \<noteq> x \<longrightarrow>
             sub_key env (x\<lparr>s_status := Cancelled\<rparr>) \<noteq> sub_key env y)"
  proof (intro ballI impI)
    fix x y
    assume x: "x \<in> set (subscriptions d)" "coll env (s_id x) = coll env sid"
      and y: "y \<in> set (subscriptions d)" "y \<noteq> x"
    from pk x(1) r(1) x(2) r(2) have "x = r"
      by (metis (mono_tags, lifting) distinct_map inj_onD)
    with r(3) have "sub_key env (x\<lparr>s_status := Cancelled\<rparr>) = (coll env uid, Cancelled)"
      by (simp add: sub_key_def)
    moreover from nc y(1) have "sub_key env y \<noteq> (coll env uid, Cancelled)"
      by (auto simp: sub_key_def)
    ultimately show "sub_key env (x\<lparr>s_status := Cancelled\<rparr>) \<noteq> sub_key env y" by simp
  qed
  with pk uniq
  have dist: "distinct (map (sub_key env)
          (map (\<lambda>s. if coll env (s_id s) = coll env sid then s\<lparr>s_status := Cancelled\<rparr> else s)
               (subscriptions d)))"
    unfolding unique_active_subscription_def
    by (intro distinct_map_update_one[where i = "\<lambda>s. coll env (s_id s)"]) auto
  have fe: "map (\<lambda>s. if coll env (s_id s) = coll env sid then patch_subscription ?data s else s)
            (subscriptions d)
        = map (\<lambda>s. if coll env (s_id s) = coll env sid then s\<lparr>s_status := Cancelled\<rparr> else s)
              (subscriptions d)"
    by (rule map_cong) (simp_all add: p)
  have "update_subscriptions env sid (patch_subscription ?data) d
          = Inr (d\<lparr>subscriptions :=
                map (\<lambda>s. if coll env (s_id s) = coll env sid then s\<lparr>s_status := Cancelled\<rparr> else s)
                    (subscriptions d)\<rparr>)"
    unfolding update_subscriptions_def Let_def fe using dist by simp
  then show ?thesis
    by (simp add: updateSubscription_def)
qed

text \<open>
  C2, as the code has it. For a token that verifies to a user, \<open>cancelSubscription\<close> throws
  "Subscription not found or access denied" and leaves the database as it was whenever
  the identified subscription is not an Active subscription of that user, in particular
  whenever it belongs to someone else. When it is the user's Active subscription (the
  keys of the table being unique, the user having no Cancelled row, and the identifier
  of the audit entry being new), it returns, the subscription's status is Cancelled, the
  user's plan is Starter and the audit entry is appended.
\<close>

theorem cancelSubscription_ownership:
  "(getCurrentUserId env token = Inr (Some uid)
      \<and> \<not> (\<exists>s \<in> set (subscriptions d). s_id s = sid
                \<and> coll env (s_user_id s) = coll env uid \<and> s_status s = Active)
      \<longrightarrow> cancelSubscription env aid token sid d
            = (Inl (Error ''Subscription not found or access denied''), d))
   \<and> (getCurrentUserId env token = Inr (Some uid)
        \<and> unique_active_subscription env d
        \<and> distinct (map (\<lambda>s. coll env (s_id s)) (subscriptions d))
        \<and> r \<in> set (subscriptions d) \<and> s_id r = sid
        \<and> coll env (s_user_id r) = coll env uid \<and> s_status r = Active
        \<and> (\<forall>s \<in> set (subscriptions d).
               coll env (s_user_id s) = coll env uid \<longrightarrow> s_status s \<noteq> Cancelled)
        \<and> coll env aid \<notin> set (map (\<lambda>a. coll env (al_id a)) (audit_logs d))
      \<longrightarrow> fst (cancelSubscription env aid token sid d) = Inr ()
          \<and> subscriptions (snd (cancelSubscription env aid token sid d))
              = map (\<lambda>s. if coll env (s_id s) = coll env sid
                         then s\<lparr>s_status := Cancelled\<rparr> else s) (subscriptions d)
          \<and> users (snd (cancelSubscription env aid token sid d))
              = map (\<lambda>u. if coll env (u_id u) = coll env uid
                         then u\<lparr>u_plan := Starter\<rparr> else u) (users d)
          \<and> (\<exists>a. audit_logs (snd (cancelSubscription env aid token sid d))
                     = audit_logs d @ [a]
                   \<and> al_action a = ''subscription_cancelled''
                   \<and> al_entity_id a = or_null (Some sid)))"
proof (intro conjI impI)
  assume a: "getCurrentUserId env token = Inr (Some uid)
      \<and> \<not> (\<exists>s \<in> set (subscriptions d). s_id s = sid
                \<and> coll env (s_user_id s) = coll env uid \<and> s_status s = Active)"
  show "cancelSubscription env aid token sid d
            = (Inl (Error ''Subscription not found or access denied''), d)"
  proof (cases "getSubscription env uid d")
    case None
    with a show ?thesis by (simp add: cancelSubscription_def)
  next
    case (Some sub)
    from getSubscription_Some[OF Some] a have "sub_id sub \<noteq> sid" by blast
    with a Some show ?thesis by (simp add: cancelSubscription_def)
  qed
next
  assume b: "getCurrentUserId env token = Inr (Some uid)
        \<and> unique_active_subscription env d
        \<and> distinct (map (\<lambda>s. coll env (s_id s)) (subscriptions d))
        \<and> r \<in> set (subscriptions d) \<and> s_id r = sid
        \<and> coll env (s_user_id r) = coll env uid \<and> s_status r = Active
        \<and> (\<forall>s \<in> set (subscriptions d).
               coll env (s_user_id s) = coll env uid \<longrightarrow> s_status s \<noteq> Cancelled)
        \<and> coll env aid \<notin> set (map (\<lambda>a. coll env (al_id a)) (audit_logs d))"
  let ?d1 = "d\<lparr>subscriptions :=
                map (\<lambda>s. if coll env (s_id s) = coll env sid then s\<lparr>s_status := Cancelled\<rparr> else s)
                    (subscriptions d)\<rparr>"
  let ?d2 = "?d1\<lparr>users := map (\<lambda>u. if coll env (u_id u) = coll env uid
                                   then u\<lparr>u_plan := Starter\<rparr> else u) (users ?d1)\<rparr>"
  let ?ad = "\<lparr>ad_userId = Some uid, ad_action = ''subscription_cancelled'',
              ad_entityType = Some ''subscription'', ad_entityId = Some sid,
              ad_changes = Some (JObj [(''status'', JStr ''Cancelled'')]),
              ad_ipAddress = None\<rparr>"
  from b have gs: "getSubscription env uid d
           = Some \<lparr>sub_id = sid, sub_plan = s_plan r, sub_status = s_status r,
                    sub_renewal_date = s_renewal_date r\<rparr>"
    using getSubscription_active_row[of env d r uid] by simp
  from b have us: "updateSubscription env sid
           \<lparr>us_plan = None, us_status = Some Cancelled, us_renewal_date = None\<rparr> d
         = (Inr (), ?d1)"
    by (intro cancel_update_accepted[where r = r and uid = uid]) simp_all
  have uu: "updateUser env uid
           \<lparr>uu_name = None, uu_email = None, uu_plan = Some Starter, uu_status = None\<rparr> ?d1
         = (Inr (), ?d2)"
    by (rule updateUser_plan_only)
  from b have fresh: "coll env aid \<notin> set (map (\<lambda>a. coll env (al_id a)) (audit_logs ?d2))"
    by simp
  have fits: "case or_null (ad_ipAddress ?ad) of None \<Rightarrow> True | Some ip \<Rightarrow> length ip \<le> 45"
    by (simp add: or_null_def)
  from logAuditAction_fresh[OF fresh fits]
  obtain a where la: "logAuditAction env aid ?ad ?d2
                        = (Inr (), ?d2\<lparr>audit_logs := audit_logs ?d2 @ [a]\<rparr>)"
    and a: "al_action a = ''subscription_cancelled''" "al_entity_id a = or_null (Some sid)"
    by force
  from b gs us uu la
  have res: "cancelSubscription env aid token sid d
               = (Inr (), ?d2\<lparr>audit_logs := audit_logs ?d2 @ [a]\<rparr>)"
    by (simp add: cancelSubscription_def)
  show "fst (cancelSubscription env aid token sid d) = Inr ()"
    by (simp add: res)
  show "subscriptions (snd (cancelSubscription env aid token sid d))
              = map (\<lambda>s. if coll env (s_id s) = coll env sid
                         then s\<lparr>s_status := Cancelled\<rparr> else s) (subscriptions d)"
    by (simp add: res)
  show "users (snd (cancelSubscription env aid token sid d))
              = map (\<lambda>u. if coll env (u_id u) = coll env uid
                         then u\<lparr>u_plan := Starter\<rparr> else u) (users d)"
    by (simp add: res)
  show "\<exists>a. audit_logs (snd (cancelSubscription env aid token sid d))
                     = audit_logs d @ [a]
                   \<and> al_action a = ''subscription_cancelled''
                   \<and> al_entity_id a = or_null (Some sid)"
    using a by (simp add: res)
qed

theorem cancelSubscription_ownership_witness:
  "cancelSubscription env0 ''a1'' ''tok-bob'' ''s1'' db_pro
     = (Inl (Error ''Subscription not found or access denied''), db_pro)
   \<and> fst (cancelSubscription env0 ''a1'' ''tok-alice'' ''s1'' db_pro) = Inr ()
   \<and> subscriptions (snd (cancelSubscription env0 ''a1'' ''tok-alice'' ''s1'' db_pro))
       = [sub_alice_cancelled]
   \<and> users (snd (cancelSubscription env0 ''a1'' ''tok-alice'' ''s1'' db_pro)) = [alice, bob]"
proof -
  have c: "coll env0 = (\<lambda>s. s)" by (simp add: env0_def)
  have tb: "getCurrentUserId env0 ''tok-bob'' = Inr (Some ''u2'')"
    by (simp add: getCurrentUserId_def env0_def)
  have ta: "getCurrentUserId env0 ''tok-alice'' = Inr (Some ''u1'')"
    by (simp add: getCurrentUserId_def env0_def)
  have subs: "subscriptions db_pro = [sub_alice]" and us: "users db_pro = [alice_pro, bob]"
    and al: "audit_logs db_pro = []"
    by (simp_all add: db_pro_def empty_db_def)
  have 1: "cancelSubscription env0 ''a1'' ''tok-bob'' ''s1'' db_pro
     = (Inl (Error ''Subscription not found or access denied''), db_pro)"
    using cancelSubscription_ownership
            [where env = env0 and token = "''tok-bob''" and uid = "''u2''" and d = db_pro
               and sid = "''s1''" and aid = "''a1''"]
          tb
    by (simp add: c subs sub_alice_def)
  have 2: "fst (cancelSubscription env0 ''a1'' ''tok-alice'' ''s1'' db_pro) = Inr ()
   \<and> subscriptions (snd (cancelSubscription env0 ''a1'' ''tok-alice'' ''s1'' db_pro))
       = [sub_alice_cancelled]
   \<and> users (snd (cancelSubscription env0 ''a1'' ''tok-alice'' ''s1'' db_pro)) = [alice, bob]"
    using cancelSubscription_ownership
            [where env = env0 and token = "''tok-alice''" and uid = "''u1''" and d = db_pro
               and sid = "''s1''" and aid = "''a1''" and r = sub_alice]
          ta
    by (simp add: c subs us al unique_active_subscription_def sub_key_def sub_alice_def
          sub_alice_cancelled_def alice_pro_def alice_def bob_def)
  from 1 2 show ?thesis by blast
qed

text \<open>
  The claim as it is written fails where the identified subscription belongs to the
  requester and is not Active. With the requester's Cancelled subscription and a plan Pro
  set since, and with the requester's Inactive subscription, the call throws "Subscription
  not found or access denied": the plan stays Pro, and the Inactive row stays Inactive.
\<close>

theorem cancelSubscription_ownership_counterexample:
  "getCurrentUserId env0 ''tok-alice'' = Inr (Some ''u1'')
   \<and> map (\<lambda>s. (s_id s, s_user_id s, s_status s)) (subscriptions db_cancelled)
       = [(''s1'', ''u1'', Cancelled)]
   \<and> cancelSubscription env0 ''a1'' ''tok-alice'' ''s1'' db_cancelled
       = (Inl (Error ''Subscription not found or access denied''), db_cancelled)
   \<and> map u_plan (users (snd (cancelSubscription env0 ''a1'' ''tok-alice'' ''s1'' db_cancelled)))
       = [Pro]
   \<and> map (\<lambda>s. (s_id s, s_user_id s, s_status s)) (subscriptions db_inactive)
       = [(''s1'', ''u1'', Inactive)]
   \<and> cancelSubscription env0 ''a1'' ''tok-alice'' ''s1'' db_inactive
       = (Inl (Error ''Subscription not found or access denied''), db_inactive)
   \<and> map s_status (subscriptions (snd (cancelSubscription env0 ''a1'' ''tok-alice'' ''s1'' db_inactive)))
       = [Inactive]
   \<and> map u_plan (users (snd (cancelSubscription env0 ''a1'' ''tok-alice'' ''s1'' db_inactive)))
       = [Pro]"
proof -
  have c: "coll env0 = (\<lambda>s. s)" by (simp add: env0_def)
  have ta: "getCurrentUserId env0 ''tok-alice'' = Inr (Some ''u1'')"
    by (simp add: getCurrentUserId_def env0_def)
  have sc: "subscriptions db_cancelled = [sub_alice_cancelled]"
    and uc: "users db_cancelled = [alice_pro]"
    and si: "subscriptions db_inactive = [sub_alice_inactive]"
    and ui: "users db_inactive = [alice_pro]"
    by (simp_all add: db_cancelled_def db_inactive_def empty_db_def)
  have gc: "getSubscription env0 ''u1'' db_cancelled = None"
    by (simp add: getSubscription_def c sc sub_alice_cancelled_def sub_alice_def)
  have gi: "getSubscription env0 ''u1'' db_inactive = None"
    by (simp add: getSubscription_def c si sub_alice_inactive_def sub_alice_def)
  have 1: "cancelSubscription env0 ''a1'' ''tok-alice'' ''s1'' db_cancelled
       = (Inl (Error ''Subscription not found or access denied''), db_cancelled)"
    by (simp add: cancelSubscription_def ta gc)
  have 2: "cancelSubscription env0 ''a1'' ''tok-alice'' ''s1'' db_inactive
       = (Inl (Error ''Subscription not found or access denied''), db_inactive)"
    by (simp add: cancelSubscription_def ta gi)
  show ?thesis
    by (simp add: ta 1 2 sc uc si ui sub_alice_cancelled_def sub_alice_inactive_def
          sub_alice_def alice_pro_def alice_def)
qed

text \<open>
  The condition on the Cancelled rows in the theorem above is not idle. The unique key
  \<open>unique_active_subscription (user_id, status)\<close> holds for every status: a user who has
  cancelled one subscription and activated another cannot cancel the second, the
  \<open>UPDATE\<close> to Cancelled being refused with \<open>ER_DUP_ENTRY\<close>; the subscription stays Active
  and the plan is not reset.
\<close>

lemma cancelSubscription_second_refused:
  "unique_active_subscription env0 db_second
   \<and> cancelSubscription env0 ''a1'' ''tok-alice'' ''s1'' db_second
       = (Inl (DbError ER_DUP_ENTRY), db_second)"
proof -
  have c: "coll env0 = (\<lambda>s. s)" by (simp add: env0_def)
  have ta: "getCurrentUserId env0 ''tok-alice'' = Inr (Some ''u1'')"
    by (simp add: getCurrentUserId_def env0_def)
  have s: "subscriptions db_second = [sub_alice_old, sub_alice]"
    by (simp add: db_second_def empty_db_def)
  have g: "getSubscription env0 ''u1'' db_second
             = Some \<lparr>sub_id = ''s1'', sub_plan = Pro, sub_status = Active,
                      sub_renewal_date = Some ''2025-02-15 12:00:00''\<rparr>"
    by (simp add: getSubscription_def c s sub_alice_old_def sub_alice_def)
  have u: "updateSubscription env0 ''s1''
             \<lparr>us_plan = None, us_status = Some Cancelled, us_renewal_date = None\<rparr> db_second
           = (Inl (DbError ER_DUP_ENTRY), db_second)"
    by (simp add: updateSubscription_def update_subscriptions_def patch_subscription_def
          sub_key_def c s sub_alice_old_def sub_alice_def Let_def)
  have "unique_active_subscription env0 db_second"
    by (simp add: unique_active_subscription_def sub_key_def c s sub_alice_old_def
          sub_alice_def)
  moreover have "cancelSubscription env0 ''a1'' ''tok-alice'' ''s1'' db_second
       = (Inl (DbError ER_DUP_ENTRY), db_second)"
    by (simp add: cancelSubscription_def ta g u)
  ultimately show ?thesis by simp
qed

subsection \<open>Login\<close>

text \<open>
  Where the two failures do get the same response: the password is a string and the
  \<open>x-forwarded-for\<close> header, when there is one, fits the column \<open>ip_address\<close>. Then a login
  with an email no account has and a login with a known email and a wrong password are
  both answered with status 401 and "Invalid email or password".
\<close>

lemma login_failure_same_response:
  assumes "or_null (rq_email req1) = Some e1" "rq_password req1 = Some pw1" "truthy pw1"
    and "login_lookup env e1 d1 = None"
    and "or_null (rq_email req2) = Some e2" "rq_password req2 = Some (JStr p2)" "p2 \<noteq> []"
    and "login_lookup env e2 d2 = Some user"
    and "\<not> verifyPassword env p2 (lr_password_hash user)"
    and "case or_null (rq_forwarded_for req2) of None \<Rightarrow> True | Some v \<Rightarrow> length v \<le> 45"
    and "coll env aid2 \<notin> set (map (\<lambda>a. coll env (al_id a)) (audit_logs d2))"
  shows "fst (POST env aid1 req1 d1)
           = \<lparr>rs_status = 401, rs_body = ErrorBody ''Invalid email or password''\<rparr>
         \<and> fst (POST env aid2 req2 d2) = fst (POST env aid1 req1 d1)"
proof -
  from assms(1-4) have 1: "fst (POST env aid1 req1 d1)
         = \<lparr>rs_status = 401, rs_body = ErrorBody ''Invalid email or password''\<rparr>"
    by (simp add: POST_def)
  let ?ip = "case or_null (rq_forwarded_for req2) of None \<Rightarrow> ''unknown'' | Some v \<Rightarrow> v"
  let ?ad = "\<lparr>ad_userId = None, ad_action = ''admin_login_failed'',
              ad_entityType = Some ''user'', ad_entityId = Some (lr_id user),
              ad_changes = None, ad_ipAddress = Some ?ip\<rparr>"
  have "?ip \<noteq> [] \<and> length ?ip \<le> 45"
    using assms(10) by (auto simp: or_null_def split: option.splits if_splits)
  then have "case or_null (ad_ipAddress ?ad) of None \<Rightarrow> True | Some ip \<Rightarrow> length ip \<le> 45"
    by (simp add: or_null_def)
  from logAuditAction_fresh[OF assms(11) this]
  obtain a where "logAuditAction env aid2 ?ad d2
                    = (Inr (), d2\<lparr>audit_logs := audit_logs d2 @ [a]\<rparr>)"
    by blast
  with assms(5-9) have 2: "fst (POST env aid2 req2 d2)
         = \<lparr>rs_status = 401, rs_body = ErrorBody ''Invalid email or password''\<rparr>"
    by (simp add: POST_def Let_def)
  from 1 2 show ?thesis by simp
qed

text \<open>
  C4. The two failures of a login are not always answered alike. Against a database with
  the one account alice@x.com, a request through two proxies, whose \<open>x-forwarded-for\<close> has
  51 characters, is answered with 401 "Invalid email or password" for an email no account
  has, and with 500 "Internal server error" for alice's email with a wrong password: the
  audit entry of the failed login is refused, its \<open>ip_address\<close> being longer than the
  column, and the handler catches the error. The same holds for a body whose password is
  the number 123456: 401 for the unknown email, and 500 for alice's, where the comparison
  of the password rejects the number. The response tells the caller that the email is
  known.
\<close>

theorem login_failure_distinguishable:
  "length forwarded_chain = 51
   \<and> fst (POST env0 ''a1''
          \<lparr>rq_email = Some ''nobody@x.com'', rq_password = Some (JStr ''wrong'' :: int json),
           rq_forwarded_for = Some forwarded_chain\<rparr>
          (empty_db\<lparr>users := [alice]\<rparr>))
       = \<lparr>rs_status = 401, rs_body = ErrorBody ''Invalid email or password''\<rparr>
   \<and> POST env0 ''a1''
          \<lparr>rq_email = Some ''alice@x.com'', rq_password = Some (JStr ''wrong'' :: int json),
           rq_forwarded_for = Some forwarded_chain\<rparr>
          (empty_db\<lparr>users := [alice]\<rparr>)
       = (\<lparr>rs_status = 500, rs_body = ErrorBody ''Internal server error''\<rparr>,
          empty_db\<lparr>users := [alice]\<rparr>)
   \<and> fst (POST env0 ''a1''
          \<lparr>rq_email = Some ''nobody@x.com'', rq_password = Some (JNum 123456 :: int json),
           rq_forwarded_for = None\<rparr>
          (empty_db\<lparr>users := [alice]\<rparr>))
       = \<lparr>rs_status = 401, rs_body = ErrorBody ''Invalid email or password''\<rparr>
   \<and> POST env0 ''a1''
          \<lparr>rq_email = Some ''alice@x.com'', rq_password = Some (JNum 123456 :: int json),
           rq_forwarded_for = None\<rparr>
          (empty_db\<lparr>users := [alice]\<rparr>)
       = (\<lparr>rs_status = 500, rs_body = ErrorBody ''Internal server error''\<rparr>,
          empty_db\<lparr>users := [alice]\<rparr>)"
proof -
  let ?d = "empty_db\<lparr>users := [alice]\<rparr>"
  have c: "coll env0 = (\<lambda>s. s)" by (simp add: env0_def)
  have len: "length forwarded_chain = 51"
    by (simp add: forwarded_chain_def)
  have fc: "or_null (Some forwarded_chain) = Some forwarded_chain"
    using len by (auto simp: or_null_def)
  have n: "login_lookup env0 ''nobody@x.com'' ?d = None"
    by (simp add: login_lookup_def c empty_db_def alice_def)
  have k: "login_lookup env0 ''alice@x.com'' ?d
             = Some \<lparr>lr_id = ''u1'', lr_email = ''alice@x.com'',
                     lr_password_hash = ''$2a$10$pw123456'', lr_name = ''Alice'',
                     lr_role = RUser, lr_plan = Some Starter, lr_status = Active,
                     lr_admin = False\<rparr>"
    by (simp add: login_lookup_def c empty_db_def alice_def)
  have w: "\<not> verifyPassword env0 ''wrong'' ''$2a$10$pw123456''"
    by (simp add: verifyPassword_def env0_def)
  have l: "logAuditAction env0 ''a1''
             \<lparr>ad_userId = None, ad_action = ''admin_login_failed'',
              ad_entityType = Some ''user'', ad_entityId = Some ''u1'',
              ad_changes = None, ad_ipAddress = Some forwarded_chain\<rparr> ?d
           = (Inl (DbError ER_DATA_TOO_LONG), ?d)"
    by (simp add: logAuditAction_def insert_audit_logs_def fc len)
  have 1: "fst (POST env0 ''a1''
          \<lparr>rq_email = Some ''nobody@x.com'', rq_password = Some (JStr ''wrong'' :: int json),
           rq_forwarded_for = Some forwarded_chain\<rparr> ?d)
       = \<lparr>rs_status = 401, rs_body = ErrorBody ''Invalid email or password''\<rparr>"
    by (simp add: POST_def or_null_def n)
  have 2: "POST env0 ''a1''
          \<lparr>rq_email = Some ''alice@x.com'', rq_password = Some (JStr ''wrong'' :: int json),
           rq_forwarded_for = Some forwarded_chain\<rparr> ?d
       = (\<lparr>rs_status = 500, rs_body = ErrorBody ''Internal server error''\<rparr>, ?d)"
    by (simp add: POST_def fc k w l internal_error_def or_null_def[of "Some ''alice@x.com''"])
  have 3: "fst (POST env0 ''a1''
          \<lparr>rq_email = Some ''nobody@x.com'', rq_password = Some (JNum 123456 :: int json),
           rq_forwarded_for = None\<rparr> ?d)
       = \<lparr>rs_status = 401, rs_body = ErrorBody ''Invalid email or password''\<rparr>"
    by (simp add: POST_def or_null_def n)
  have 4: "POST env0 ''a1''
          \<lparr>rq_email = Some ''alice@x.com'', rq_password = Some (JNum 123456 :: int json),
           rq_forwarded_for = None\<rparr> ?d
       = (\<lparr>rs_status = 500, rs_body = ErrorBody ''Internal server error''\<rparr>, ?d)"
    by (simp add: POST_def or_null_def k internal_error_def)
  from len 1 2 3 4 show ?thesis by blast
qed

subsection \<open>Packages\<close>

lemma parse_features_total: "\<exists>v. parse_features lib raw = Inr v"
  by (auto simp: parse_features_def split: option.splits sum.splits)

lemma row_package_total:
  "\<exists>p. row_package lib r = Inr p \<and> pkg_id p = pk_id r
       \<and> parse_features lib (pk_features r) = Inr (the (pkg_features p))
       \<and> pkg_features p \<noteq> None"
proof -
  obtain v where "parse_features lib (pk_features r) = Inr v"
    using parse_features_total by blast
  then show ?thesis by (simp add: row_package_def)
qed

lemma map_result_total:
  assumes "\<forall>x \<in> set xs. \<exists>y. f x = Inr y"
  shows "\<exists>ys. map_result f xs = Inr ys \<and> length ys = length xs
           \<and> (\<forall>i < length xs. f (xs ! i) = Inr (ys ! i))"
  using assms
proof (induction xs)
  case Nil
  then show ?case by simp
next
  case (Cons x xs)
  then obtain y where y: "f x = Inr y" by auto
  from Cons obtain ys where ys: "map_result f xs = Inr ys" "length ys = length xs"
    "\<forall>i < length xs. f (xs ! i) = Inr (ys ! i)"
    by auto
  have "\<forall>i < length (x # xs). f ((x # xs) ! i) = Inr ((y # ys) ! i)"
  proof (intro allI impI)
    fix i assume "i < length (x # xs)"
    then show "f ((x # xs) ! i) = Inr ((y # ys) ! i)"
      using y ys(3) by (cases i) auto
  qed
  with y ys show ?case by simp
qed

lemma parse_features_fallback:
  "raw \<noteq> [] \<Longrightarrow> JSON_parse lib raw = Inl e
     \<Longrightarrow> parse_features lib (Some raw) = Inr (JArr [JStr raw])"
  by (simp add: parse_features_def)

lemma parse_features_empty:
  "raw = None \<or> raw = Some [] \<Longrightarrow> parse_features lib raw = Inr (JArr [])"
  by (auto simp: parse_features_def)

text \<open>
  C9, as the code has it. \<open>getAllPackages\<close> and \<open>getPackageById\<close> do not throw whatever the
  stored features are. A returned package whose stored features are a non-empty text
  that \<open>JSON.parse\<close> rejects has the one-element list of that text as its features; a
  package whose stored features are NULL or the empty text has no features.
\<close>

theorem package_features_fallback:
  "(\<exists>ps. getAllPackages lib activeOnly d = Inr ps
        \<and> length ps = length (package_rows activeOnly d)
        \<and> (\<forall>i < length ps.
              pkg_id (ps ! i) = pk_id (package_rows activeOnly d ! i)
              \<and> (pk_features (package_rows activeOnly d ! i) = Some raw \<and> raw \<noteq> []
                   \<and> JSON_parse lib raw = Inl e
                   \<longrightarrow> pkg_features (ps ! i) = Some (JArr [JStr raw]))
              \<and> (pk_features (package_rows activeOnly d ! i) = None
                   \<or> pk_features (package_rows activeOnly d ! i) = Some []
                   \<longrightarrow> pkg_features (ps ! i) = Some (JArr []))))
   \<and> (\<exists>res. getPackageById env lib pid d = Inr res
        \<and> (\<forall>p. res = Some p \<longrightarrow>
              (\<exists>row \<in> set (packages d). coll env (pk_id row) = coll env pid
                  \<and> pkg_id p = pk_id row
                  \<and> (pk_features row = Some raw \<and> raw \<noteq> [] \<and> JSON_parse lib raw = Inl e
                       \<longrightarrow> pkg_features p = Some (JArr [JStr raw]))
                  \<and> (pk_features row = None \<or> pk_features row = Some []
                       \<longrightarrow> pkg_features p = Some (JArr [])))))"
proof (intro conjI)
  let ?rows = "package_rows activeOnly d"
  obtain ps where ps: "map_result (row_package lib) ?rows = Inr ps" "length ps = length ?rows"
    "\<forall>i < length ?rows. row_package lib (?rows ! i) = Inr (ps ! i)"
    using map_result_total[of ?rows "row_package lib"] row_package_total by blast
  have "pkg_id (ps ! i) = pk_id (?rows ! i)
        \<and> (pk_features (?rows ! i) = Some raw \<and> raw \<noteq> [] \<and> JSON_parse lib raw = Inl e
             \<longrightarrow> pkg_features (ps ! i) = Some (JArr [JStr raw]))
        \<and> (pk_features (?rows ! i) = None \<or> pk_features (?rows ! i) = Some []
             \<longrightarrow> pkg_features (ps ! i) = Some (JArr []))" if "i < length ps" for i
  proof -
    from that ps have rp: "row_package lib (?rows ! i) = Inr (ps ! i)" by simp
    obtain p where p: "row_package lib (?rows ! i) = Inr p" "pkg_id p = pk_id (?rows ! i)"
      "parse_features lib (pk_features (?rows ! i)) = Inr (the (pkg_features p))"
      "pkg_features p \<noteq> None"
      using row_package_total by blast
    with rp have e: "p = ps ! i" by simp
    show ?thesis
      using p(2-4) parse_features_fallback[of raw lib e]
        parse_features_empty[of "pk_features (?rows ! i)" lib]
      unfolding e by auto
  qed
  with ps(1,2)
  show "\<exists>ps. getAllPackages lib activeOnly d = Inr ps
        \<and> length ps = length (package_rows activeOnly d)
        \<and> (\<forall>i < length ps.
              pkg_id (ps ! i) = pk_id (package_rows activeOnly d ! i)
              \<and> (pk_features (package_rows activeOnly d ! i) = Some raw \<and> raw \<noteq> []
                   \<and> JSON_parse lib raw = Inl e
                   \<longrightarrow> pkg_features (ps ! i) = Some (JArr [JStr raw]))
              \<and> (pk_features (package_rows activeOnly d ! i) = None
                   \<or> pk_features (package_rows activeOnly d ! i) = Some []
                   \<longrightarrow> pkg_features (ps ! i) = Some (JArr [])))"
    unfolding getAllPackages_def by blast
next
  let ?f = "filter (\<lambda>r. coll env (pk_id r) = coll env pid) (packages d)"
  show "\<exists>res. getPackageById env lib pid d = Inr res
        \<and> (\<forall>p. res = Some p \<longrightarrow>
              (\<exists>row \<in> set (packages d). coll env (pk_id row) = coll env pid
                  \<and> pkg_id p = pk_id row
                  \<and> (pk_features row = Some raw \<and> raw \<noteq> [] \<and> JSON_parse lib raw = Inl e
                       \<longrightarrow> pkg_features p = Some (JArr [JStr raw]))
                  \<and> (pk_features row = None \<or> pk_features row = Some []
                       \<longrightarrow> pkg_features p = Some (JArr []))))"
  proof (cases ?f)
    case Nil
    then show ?thesis by (simp add: getPackageById_def)
  next
    case (Cons r rs)
    then have "r \<in> set ?f" by simp
    then have r: "r \<in> set (packages d)" "coll env (pk_id r) = coll env pid" by simp_all
    obtain p where p: "row_package lib r = Inr p" "pkg_id p = pk_id r"
      "parse_features lib (pk_features r) = Inr (the (pkg_features p))"
      "pkg_features p \<noteq> None"
      using row_package_total by blast
    have g: "getPackageById env lib pid d = Inr (Some p)"
      using Cons p(1) by (simp add: getPackageById_def)
    have "(pk_features r = Some raw \<and> raw \<noteq> [] \<and> JSON_parse lib raw = Inl e
             \<longrightarrow> pkg_features p = Some (JArr [JStr raw]))
          \<and> (pk_features r = None \<or> pk_features r = Some []
             \<longrightarrow> pkg_features p = Some (JArr []))"
      using p(3,4) parse_features_fallback[of raw lib e]
        parse_features_empty[of "pk_features r" lib]
      by auto
    with g r p(2) show ?thesis by auto
  qed
qed

theorem package_features_fallback_witness:
  "(\<exists>ps. getAllPackages lib0 False db_malformed = Inr ps \<and> length ps = 1
        \<and> pkg_id (ps ! 0) = ''p1''
        \<and> pkg_features (ps ! 0) = Some (JArr [JStr ''fast, cheap'']))
   \<and> (\<exists>p. getPackageById env0 lib0 ''p1'' db_malformed = Inr (Some p)
        \<and> pkg_features p = Some (JArr [JStr ''fast, cheap'']))"
proof -
  have c: "coll env0 = (\<lambda>s. s)" by (simp add: env0_def)
  have pk: "packages db_malformed = [package0]"
    by (simp add: db_malformed_def empty_db_def)
  have rows: "package_rows False db_malformed = [package0]"
    by (simp add: package_rows_def pk)
  have f: "pk_features package0 = Some ''fast, cheap''" "pk_id package0 = ''p1''"
    by (simp_all add: package0_def)
  have e: "JSON_parse lib0 ''fast, cheap'' = Inl (Error ''SyntaxError'')"
    by (simp add: lib0_def parse_string_array_def)
  note t = package_features_fallback
             [where lib = lib0 and activeOnly = False and d = db_malformed and env = env0
                and pid = "''p1''" and raw = "''fast, cheap''" and e = "Error ''SyntaxError''"]
  from t obtain ps where ps: "getAllPackages lib0 False db_malformed = Inr ps"
    "length ps = length (package_rows False db_malformed)"
    "\<forall>i < length ps.
        pkg_id (ps ! i) = pk_id (package_rows False db_malformed ! i)
        \<and> (pk_features (package_rows False db_malformed ! i) = Some ''fast, cheap''
               \<and> ''fast, cheap'' \<noteq> []
               \<and> JSON_parse lib0 ''fast, cheap'' = Inl (Error ''SyntaxError'')
             \<longrightarrow> pkg_features (ps ! i) = Some (JArr [JStr ''fast, cheap'']))
        \<and> (pk_features (package_rows False db_malformed ! i) = None
             \<or> pk_features (package_rows False db_malformed ! i) = Some []
             \<longrightarrow> pkg_features (ps ! i) = Some (JArr []))"
    by blast
  from ps(2) rows have l: "length ps = 1" by simp
  with ps(3) rows f e have "pkg_id (ps ! 0) = ''p1''
      \<and> pkg_features (ps ! 0) = Some (JArr [JStr ''fast, cheap''])"
    by simp
  with ps(1) l have 1: "\<exists>ps. getAllPackages lib0 False db_malformed = Inr ps \<and> length ps = 1
        \<and> pkg_id (ps ! 0) = ''p1''
        \<and> pkg_features (ps ! 0) = Some (JArr [JStr ''fast, cheap''])"
    by blast
  from t obtain res where res: "getPackageById env0 lib0 ''p1'' db_malformed = Inr res"
    "\<forall>p. res = Some p \<longrightarrow>
       (\<exists>row \<in> set (packages db_malformed). coll env0 (pk_id row) = coll env0 ''p1''
           \<and> pkg_id p = pk_id row
           \<and> (pk_features row = Some ''fast, cheap'' \<and> ''fast, cheap'' \<noteq> []
                  \<and> JSON_parse lib0 ''fast, cheap'' = Inl (Error ''SyntaxError'')
                \<longrightarrow> pkg_features p = Some (JArr [JStr ''fast, cheap'']))
           \<and> (pk_features row = None \<or> pk_features row = Some []
                \<longrightarrow> pkg_features p = Some (JArr [])))"
    by blast
  have "res \<noteq> None"
    using res(1) by (auto simp: getPackageById_def pk c f row_package_def split: sum.splits)
  then obtain p where p: "res = Some p" by auto
  with res(2) pk f e have "pkg_features p = Some (JArr [JStr ''fast, cheap''])"
    by simp
  with res(1) p have 2: "\<exists>p. getPackageById env0 lib0 ''p1'' db_malformed = Inr (Some p)
        \<and> pkg_features p = Some (JArr [JStr ''fast, cheap''])"
    by blast
  from 1 2 show ?thesis by blast
qed

text \<open>
  The claim as it is written fails for the empty text, which is not valid JSON
  (\<open>JSON.parse\<close> rejects it): the guard \<open>if (pkg.features)\<close> takes it for absent, and the
  package has no features instead of the empty text as its one feature.
\<close>

theorem package_features_fallback_counterexample:
  "map pk_features (packages db_blank) = [Some []]
   \<and> JSON_parse lib0 [] = Inl (Error ''SyntaxError'')
   \<and> getPackageById env0 lib0 ''p1'' db_blank
       = Inr (Some \<lparr>pkg_id = ''p1'', pkg_name = ''Basic'', pkg_description = None,
                     pkg_price = 10, pkg_currency = ''USD'', pkg_features = Some (JArr []),
                     pkg_active = True, pkg_display_order = 0, pkg_created_by = None\<rparr>)
   \<and> getAllPackages lib0 False db_blank
       = Inr [\<lparr>pkg_id = ''p1'', pkg_name = ''Basic'', pkg_description = None,
                pkg_price = 10, pkg_currency = ''USD'', pkg_features = Some (JArr []),
                pkg_active = True, pkg_display_order = 0, pkg_created_by = None\<rparr>]
   \<and> JArr [] \<noteq> (JArr [JStr []] :: int json)"
  by (simp add: db_blank_def empty_db_def package0_def lib0_def parse_string_array_def
        getPackageById_def getAllPackages_def package_rows_def row_package_def
        parse_features_def env0_def)

subsection \<open>Seeding\<close>

lemma getAllPackages_length:
  "\<exists>ps. getAllPackages lib False d = Inr ps \<and> length ps = length (packages d)"
proof -
  obtain ps where "map_result (row_package lib) (package_rows False d) = Inr ps"
    "length ps = length (package_rows False d)"
    using map_result_total[of "package_rows False d" "row_package lib"] row_package_total
    by blast
  then show ?thesis by (auto simp: getAllPackages_def package_rows_def)
qed

lemma createPackage_fresh:
  assumes "coll env nid \<notin> set (map (\<lambda>x. coll env (pk_id x)) (packages d))"
    and "coll env (cp_name data) \<notin> set (map (\<lambda>x. coll env (pk_name x)) (packages d))"
  shows "createPackage env lib nid now data d =
           (Inr \<lparr>pkg_id = nid, pkg_name = cp_name data,
                 pkg_description = cp_description data, pkg_price = cp_price data,
                 pkg_currency = (case or_null (cp_currency data) of None \<Rightarrow> ''USD'' | Some c \<Rightarrow> c),
                 pkg_features = map_option (\<lambda>fs. JArr (map JStr fs)) (cp_features data),
                 pkg_active = True,
                 pkg_display_order = (case cp_display_order data of None \<Rightarrow> 0 | Some n \<Rightarrow> n),
                 pkg_created_by = cp_created_by data\<rparr>,
            d\<lparr>packages := packages d @
               [\<lparr>pk_id = nid, pk_name = cp_name data,
                 pk_description = or_null (cp_description data), pk_price = cp_price data,
                 pk_currency = (case or_null (cp_currency data) of None \<Rightarrow> ''USD'' | Some c \<Rightarrow> c),
                 pk_features = map_option (JSON_stringify lib) (cp_features data),
                 pk_display_order = (case cp_display_order data of None \<Rightarrow> 0 | Some n \<Rightarrow> n),
                 pk_created_by = or_null (cp_created_by data), pk_active = True,
                 pk_created_at = now\<rparr>]\<rparr>)"
proof -
  have "(case cp_features data of None \<Rightarrow> None | Some fs \<Rightarrow> Some (JSON_stringify lib fs))
          = map_option (JSON_stringify lib) (cp_features data)"
    by (cases "cp_features data") simp_all
  with assms show ?thesis
    by (simp add: createPackage_def insert_packages_def Let_def)
qed

lemma seed_nonempty:
  assumes "verifyAdminRole env token = Inr uid" and "packages d \<noteq> []"
  shows "seedDefaultPackagesAction env lib draw aid token d
           = (Inl (Error (''Database already has '' @ show_nat (length (packages d))
                 @ '' package(s). Delete existing packages first to re-seed.'')), d)"
proof -
  obtain ps where ps: "getAllPackages lib False d = Inr ps" "length ps = length (packages d)"
    using getAllPackages_length by blast
  with assms(2) have "length ps > 0" by simp
  with assms(1) ps show ?thesis
    by (simp add: seedDefaultPackagesAction_def)
qed

lemma seed_loop_default:
  assumes e: "packages d = []"
    and ids: "distinct [coll env (fst (draw 0)), coll env (fst (draw (Suc 0))),
                        coll env (fst (draw (Suc (Suc 0))))]"
    and names: "distinct (map (\<lambda>p. coll env (cp_name p)) defaultPackages)"
  shows "\<exists>created d1.
           seed_loop env lib draw 0 defaultPackages [] d = (Inr created, d1)
           \<and> map pkg_name created = map cp_name defaultPackages
           \<and> length created = 3
           \<and> d1 = d\<lparr>packages := packages d1\<rparr>
           \<and> script_loop env lib draw 0 defaultPackages d = (Returned, d1)
           \<and> packages d1 =
               map (\<lambda>(i, p).
                      \<lparr>pk_id = fst (draw i), pk_name = cp_name p,
                       pk_description = cp_description p, pk_price = cp_price p,
                       pk_currency = rupee,
                       pk_features = map_option (JSON_stringify lib) (cp_features p),
                       pk_display_order = int i, pk_created_by = None, pk_active = True,
                       pk_created_at = snd (draw i)\<rparr>)
                   (zip [0, Suc 0, Suc (Suc 0)] defaultPackages)"
  using ids names
  by (auto simp: defaultPackages_def createPackage_def insert_packages_def Let_def
        or_null_def rupee_def e)

lemma show_nat_digit: "n < 10 \<Longrightarrow> show_nat n = [digit_char n]"
  by (simp add: show_nat.simps)

text \<open>
  C7. For an admin token: seeding an empty catalog creates the three default packages
  (identifiers drawn distinct, the identifier of the audit entry new, the three default
  names distinct under the collation), and the script creates the same rows; seeding a
  catalog that has packages throws "Database already has n package(s). Delete existing
  packages first to re-seed." and leaves the database as it was, so seeding again after a
  seed fails and creates no row; the script returns without a change when the catalog
  has packages.
\<close>

theorem seedDefaultPackages_once:
  "verifyAdminRole env token = Inr uid \<longrightarrow>
     (packages d \<noteq> [] \<longrightarrow>
        seedDefaultPackagesAction env lib draw aid token d
          = (Inl (Error (''Database already has '' @ show_nat (length (packages d))
                @ '' package(s). Delete existing packages first to re-seed.'')), d)
        \<and> seedPackages env lib draw d = (Returned, d))
     \<and> (packages d = []
          \<and> distinct [coll env (fst (draw 0)), coll env (fst (draw (Suc 0))),
                       coll env (fst (draw (Suc (Suc 0))))]
          \<and> distinct (map (\<lambda>p. coll env (cp_name p)) defaultPackages)
          \<and> coll env aid \<notin> set (map (\<lambda>a. coll env (al_id a)) (audit_logs d))
        \<longrightarrow>
          (\<exists>r. fst (seedDefaultPackagesAction env lib draw aid token d) = Inr r
               \<and> sr_success r
               \<and> map pkg_name (sr_packages r) = map cp_name defaultPackages)
          \<and> packages (snd (seedDefaultPackagesAction env lib draw aid token d))
              = map (\<lambda>(i, p).
                       \<lparr>pk_id = fst (draw i), pk_name = cp_name p,
                        pk_description = cp_description p, pk_price = cp_price p,
                        pk_currency = rupee,
                        pk_features = map_option (JSON_stringify lib) (cp_features p),
                        pk_display_order = int i, pk_created_by = None, pk_active = True,
                        pk_created_at = snd (draw i)\<rparr>)
                    (zip [0, Suc 0, Suc (Suc 0)] defaultPackages)
          \<and> seedPackages env lib draw d
              = (Returned,
                 d\<lparr>packages :=
                     packages (snd (seedDefaultPackagesAction env lib draw aid token d))\<rparr>)
          \<and> seedDefaultPackagesAction env lib draw' aid' token
                (snd (seedDefaultPackagesAction env lib draw aid token d))
              = (Inl (Error ''Database already has 3 package(s). Delete existing packages first to re-seed.''),
                 snd (seedDefaultPackagesAction env lib draw aid token d))
          \<and> seedPackages env lib draw'
                (snd (seedDefaultPackagesAction env lib draw aid token d))
              = (Returned, snd (seedDefaultPackagesAction env lib draw aid token d)))"
proof (intro impI conjI)
  assume adm: "verifyAdminRole env token = Inr uid" and ne: "packages d \<noteq> []"
  then show "seedDefaultPackagesAction env lib draw aid token d
          = (Inl (Error (''Database already has '' @ show_nat (length (packages d))
                @ '' package(s). Delete existing packages first to re-seed.'')), d)"
    by (rule seed_nonempty)
  from ne show "seedPackages env lib draw d = (Returned, d)"
    by (simp add: seedPackages_def)
next
  assume adm: "verifyAdminRole env token = Inr uid"
  assume h: "packages d = []
          \<and> distinct [coll env (fst (draw 0)), coll env (fst (draw (Suc 0))),
                       coll env (fst (draw (Suc (Suc 0))))]
          \<and> distinct (map (\<lambda>p. coll env (cp_name p)) defaultPackages)
          \<and> coll env aid \<notin> set (map (\<lambda>a. coll env (al_id a)) (audit_logs d))"
  let ?rows = "map (\<lambda>(i, p).
                       \<lparr>pk_id = fst (draw i), pk_name = cp_name p,
                        pk_description = cp_description p, pk_price = cp_price p,
                        pk_currency = rupee,
                        pk_features = map_option (JSON_stringify lib) (cp_features p),
                        pk_display_order = int i, pk_created_by = None, pk_active = True,
                        pk_created_at = snd (draw i)\<rparr>)
                    (zip [0, Suc 0, Suc (Suc 0)] defaultPackages)"
  from h obtain created d1 where
    sl: "seed_loop env lib draw 0 defaultPackages [] d = (Inr created, d1)"
    and nm: "map pkg_name created = map cp_name defaultPackages"
    and d1: "d1 = d\<lparr>packages := packages d1\<rparr>"
    and sc: "script_loop env lib draw 0 defaultPackages d = (Returned, d1)"
    and rows: "packages d1 = ?rows"
    using seed_loop_default[of d env draw lib] by blast
  from d1 have "audit_logs d1 = audit_logs d"
    by (metis db.select_convs(5) db.surjective db.update_convs(6))
  with h have fresh: "coll env aid \<notin> set (map (\<lambda>a. coll env (al_id a)) (audit_logs d1))"
    by simp
  let ?ad = "\<lparr>ad_userId = Some uid, ad_action = ''packages_seeded'',
              ad_entityType = Some ''package'', ad_entityId = None,
              ad_changes = Some (JObj
                [(''count'', JNum (int (length created))),
                 (''packages'', JArr (map (\<lambda>p. JStr (pkg_name p)) created))]),
              ad_ipAddress = None\<rparr>"
  have "case or_null (ad_ipAddress ?ad) of None \<Rightarrow> True | Some ip \<Rightarrow> length ip \<le> 45"
    by (simp add: or_null_def)
  from logAuditAction_fresh[OF fresh this]
  obtain a where la: "logAuditAction env aid ?ad d1
                        = (Inr (), d1\<lparr>audit_logs := audit_logs d1 @ [a]\<rparr>)"
    by blast
  let ?d2 = "d1\<lparr>audit_logs := audit_logs d1 @ [a]\<rparr>"
  obtain ps where ps: "getAllPackages lib False d = Inr ps" "length ps = length (packages d)"
    using getAllPackages_length by blast
  with h have l0: "\<not> length ps > 0" by simp
  have res: "seedDefaultPackagesAction env lib draw aid token d
               = (Inr \<lparr>sr_success = True,
                       sr_message = ''Successfully created '' @ show_nat (length created)
                                      @ '' default packages'',
                       sr_packages = created\<rparr>, ?d2)"
    using adm ps(1) l0 sl la by (simp add: seedDefaultPackagesAction_def)
  show "\<exists>r. fst (seedDefaultPackagesAction env lib draw aid token d) = Inr r
               \<and> sr_success r
               \<and> map pkg_name (sr_packages r) = map cp_name defaultPackages"
    using nm by (simp add: res)
  show p2: "packages (snd (seedDefaultPackagesAction env lib draw aid token d)) = ?rows"
    using rows by (simp add: res)
  have "d\<lparr>packages := ?rows\<rparr> = d1"
    using d1 rows by simp
  with h sc show "seedPackages env lib draw d
              = (Returned,
                 d\<lparr>packages :=
                     packages (snd (seedDefaultPackagesAction env lib draw aid token d))\<rparr>)"
    unfolding p2 by (simp add: seedPackages_def)
  have len: "length (packages ?d2) = 3"
    using rows by (simp add: defaultPackages_def)
  then have ne2: "packages ?d2 \<noteq> []" by auto
  have "show_nat 3 = ''3''"
    by (simp add: show_nat_digit digit_char_def)
  with seed_nonempty[OF adm ne2, of lib draw' aid'] len
  show "seedDefaultPackagesAction env lib draw' aid' token
                (snd (seedDefaultPackagesAction env lib draw aid token d))
              = (Inl (Error ''Database already has 3 package(s). Delete existing packages first to re-seed.''),
                 snd (seedDefaultPackagesAction env lib draw aid token d))"
    by (simp add: res)
  from ne2 show "seedPackages env lib draw'
                (snd (seedDefaultPackagesAction env lib draw aid token d))
              = (Returned, snd (seedDefaultPackagesAction env lib draw aid token d))"
    by (simp add: res seedPackages_def)
qed

theorem seedDefaultPackages_once_witness:
  "map pk_name (packages (snd (seedDefaultPackagesAction env0 lib0 draw0 ''x1'' ''tok-admin'' empty_db)))
     = [''Desktop Software'', ''Auto Server'', ''Hybrid Plan'']
   \<and> seedDefaultPackagesAction env0 lib0 draw0 ''x2'' ''tok-admin''
        (snd (seedDefaultPackagesAction env0 lib0 draw0 ''x1'' ''tok-admin'' empty_db))
     = (Inl (Error ''Database already has 3 package(s). Delete existing packages first to re-seed.''),
        snd (seedDefaultPackagesAction env0 lib0 draw0 ''x1'' ''tok-admin'' empty_db))
   \<and> seedDefaultPackagesAction env0 lib0 draw0 ''x1'' ''tok-admin'' db_malformed
     = (Inl (Error ''Database already has 1 package(s). Delete existing packages first to re-seed.''),
        db_malformed)
   \<and> seedPackages env0 lib0 draw0 db_malformed = (Returned, db_malformed)"
proof -
  have c: "coll env0 = (\<lambda>s. s)" by (simp add: env0_def)
  have adm: "verifyAdminRole env0 ''tok-admin'' = Inr ''a1''"
    by (simp add: verifyAdminRole_def env0_def)
  have h: "packages empty_db = []
          \<and> distinct [coll env0 (fst (draw0 0)), coll env0 (fst (draw0 (Suc 0))),
                       coll env0 (fst (draw0 (Suc (Suc 0))))]
          \<and> distinct (map (\<lambda>p. coll env0 (cp_name p)) defaultPackages)
          \<and> coll env0 ''x1'' \<notin> set (map (\<lambda>a. coll env0 (al_id a)) (audit_logs empty_db))"
    by (simp add: c empty_db_def draw0_def defaultPackages_def)
  have m: "packages db_malformed \<noteq> []" "length (packages db_malformed) = 1"
    by (simp_all add: db_malformed_def empty_db_def)
  have s1: "show_nat (Suc 0) = ''1''"
    by (simp add: show_nat_digit digit_char_def)
  note t = seedDefaultPackages_once
             [where env = env0 and lib = lib0 and draw = draw0 and aid = "''x1''"
                and token = "''tok-admin''" and uid = "''a1''" and d = empty_db
                and draw' = draw0 and aid' = "''x2''"]
  note u = seedDefaultPackages_once
             [where env = env0 and lib = lib0 and draw = draw0 and aid = "''x1''"
                and token = "''tok-admin''" and uid = "''a1''" and d = db_malformed]
  from t adm h
  have 1: "packages (snd (seedDefaultPackagesAction env0 lib0 draw0 ''x1'' ''tok-admin'' empty_db))
              = map (\<lambda>(i, p).
                       \<lparr>pk_id = fst (draw0 i), pk_name = cp_name p,
                        pk_description = cp_description p, pk_price = cp_price p,
                        pk_currency = rupee,
                        pk_features = map_option (JSON_stringify lib0) (cp_features p),
                        pk_display_order = int i, pk_created_by = None, pk_active = True,
                        pk_created_at = snd (draw0 i)\<rparr>)
                    (zip [0, Suc 0, Suc (Suc 0)] defaultPackages)"
    and 2: "seedDefaultPackagesAction env0 lib0 draw0 ''x2'' ''tok-admin''
        (snd (seedDefaultPackagesAction env0 lib0 draw0 ''x1'' ''tok-admin'' empty_db))
     = (Inl (Error ''Database already has 3 package(s). Delete existing packages first to re-seed.''),
        snd (seedDefaultPackagesAction env0 lib0 draw0 ''x1'' ''tok-admin'' empty_db))"
    by blast+
  from 1 have 3: "map pk_name (packages (snd (seedDefaultPackagesAction env0 lib0 draw0 ''x1'' ''tok-admin'' empty_db)))
     = [''Desktop Software'', ''Auto Server'', ''Hybrid Plan'']"
    by (simp add: defaultPackages_def)
  from u adm m(1)
  have "seedDefaultPackagesAction env0 lib0 draw0 ''x1'' ''tok-admin'' db_malformed
          = (Inl (Error (''Database already has '' @ show_nat (length (packages db_malformed))
                @ '' package(s). Delete existing packages first to re-seed.'')), db_malformed)"
    and 5: "seedPackages env0 lib0 draw0 db_malformed = (Returned, db_malformed)"
    by blast+
  then have 4: "seedDefaultPackagesAction env0 lib0 draw0 ''x1'' ''tok-admin'' db_malformed
     = (Inl (Error ''Database already has 1 package(s). Delete existing packages first to re-seed.''),
        db_malformed)"
    by (simp add: m(2) s1)
  from 3 2 4 5 show ?thesis by blast
qed

end
